theory Spec2Isabelle
  imports Main
begin

section \<open>Python values used by the two scripts\<close>

text \<open>
  The repository holds two variants of one tool: the packaged command
  (\<^verbatim>\<open>frida_push/command.py\<close>) and the older standalone script (\<^verbatim>\<open>push.py\<close>).
  Functions of the packaged command keep their names; the functions of the standalone
  script, which carry the same names in the source, are suffixed \<open>_standalone\<close>.

  A Python \<^verbatim>\<open>bytes\<close> object is a list of bytes (\<open>char\<close> is a byte in HOL). A Python
  \<^verbatim>\<open>str\<close> is represented by its UTF-8 encoding: decoding is injective on well-formed
  input, so equality and concatenation of texts are equality and concatenation of
  their encodings. Python 3 never equates a \<^verbatim>\<open>bytes\<close> with a \<^verbatim>\<open>str\<close>, which the two
  constructors of \<open>pystr\<close> keep apart.
\<close>

type_synonym bytes = string

datatype pystr = Bytes bytes | Str string

datatype py_error =
    CalledProcessError
  | UnicodeDecodeError
  | IndexError
  | ValueError
  | KeyError
  | ConnectionError
  | LZMAError
  | EOFError
  | TypeError
  | TimeoutExpired
  | FileExistsError
  | OSError
  | SystemExit nat

subsection \<open>\<^verbatim>\<open>bytes.lower\<close> and \<^verbatim>\<open>bytes.strip\<close>\<close>

definition lower_byte :: "char \<Rightarrow> char" where
  "lower_byte c =
     (case map_of (zip ''ABCDEFGHIJKLMNOPQRSTUVWXYZ'' ''abcdefghijklmnopqrstuvwxyz'') c of
        None \<Rightarrow> c
      | Some d \<Rightarrow> d)"

definition lower :: "bytes \<Rightarrow> bytes" where
  "lower b = map lower_byte b"

definition is_space :: "char \<Rightarrow> bool" where
  \<comment> \<open>the bytes removed by \<^verbatim>\<open>bytes.strip()\<close>: space, tab, LF, CR, VT, FF\<close>
  "is_space c \<longleftrightarrow>
     c \<in> set [CHR '' '', CHR 0x09, CHR 0x0A, CHR 0x0D, CHR 0x0B, CHR 0x0C]"

definition strip :: "bytes \<Rightarrow> bytes" where
  "strip b = rev (dropWhile is_space (rev (dropWhile is_space b)))"

subsection \<open>Strict UTF-8 decoding\<close>

definition cont :: "nat \<Rightarrow> bool" where
  "cont b \<longleftrightarrow> 0x80 \<le> b \<and> b \<le> 0xBF"

fun utf8_ok :: "nat list \<Rightarrow> bool" where
  "utf8_ok [] = True"
| "utf8_ok (a # bs) =
     (if a < 0x80 then utf8_ok bs
      else if 0xC2 \<le> a \<and> a \<le> 0xDF then
        (case bs of b # r \<Rightarrow> cont b \<and> utf8_ok r | _ \<Rightarrow> False)
      else if a = 0xE0 then
        (case bs of b # c # r \<Rightarrow> 0xA0 \<le> b \<and> b \<le> 0xBF \<and> cont c \<and> utf8_ok r | _ \<Rightarrow> False)
      else if a = 0xED then
        (case bs of b # c # r \<Rightarrow> 0x80 \<le> b \<and> b \<le> 0x9F \<and> cont c \<and> utf8_ok r | _ \<Rightarrow> False)
      else if 0xE1 \<le> a \<and> a \<le> 0xEF then
        (case bs of b # c # r \<Rightarrow> cont b \<and> cont c \<and> utf8_ok r | _ \<Rightarrow> False)
      else if a = 0xF0 then
        (case bs of b # c # d # r \<Rightarrow>
           0x90 \<le> b \<and> b \<le> 0xBF \<and> cont c \<and> cont d \<and> utf8_ok r | _ \<Rightarrow> False)
      else if 0xF1 \<le> a \<and> a \<le> 0xF3 then
        (case bs of b # c # d # r \<Rightarrow> cont b \<and> cont c \<and> cont d \<and> utf8_ok r | _ \<Rightarrow> False)
      else if a = 0xF4 then
        (case bs of b # c # d # r \<Rightarrow>
           0x80 \<le> b \<and> b \<le> 0x8F \<and> cont c \<and> cont d \<and> utf8_ok r | _ \<Rightarrow> False)
      else False)"

definition utf8_valid :: "bytes \<Rightarrow> bool" where
  "utf8_valid b = utf8_ok (map of_char b)"

definition decode :: "bytes \<Rightarrow> py_error + pystr" where
  \<comment> \<open>\<^verbatim>\<open>b.decode("utf-8")\<close> and \<^verbatim>\<open>str(b, "utf-8")\<close>\<close>
  "decode b = (if utf8_valid b then Inr (Str b) else Inl UnicodeDecodeError)"

subsection \<open>\<^verbatim>\<open>str.format\<close> with automatic fields\<close>

text \<open>
  The templates of the source use the replacement field \<^verbatim>\<open>{}\<close> only. The model
  covers that field and the escapes \<^verbatim>\<open>{{\<close> and \<^verbatim>\<open>}}\<close>; a lone brace is the
  \<^verbatim>\<open>ValueError\<close> of Python, a missing argument its \<^verbatim>\<open>IndexError\<close>, and
  surplus arguments are ignored. Numbered and named fields do not occur in the
  source and are reported as \<^verbatim>\<open>ValueError\<close> here.
\<close>

fun format :: "string \<Rightarrow> string list \<Rightarrow> py_error + string" where
  "format [] args = Inr []"
| "format (c # cs) args =
     (if c = CHR ''{'' then
        (case cs of
           [] \<Rightarrow> Inl ValueError
         | d # ds \<Rightarrow>
             if d = CHR ''{'' then map_sum id ((#) CHR ''{'') (format ds args)
             else if d = CHR ''}'' then
               (case args of
                  [] \<Rightarrow> Inl IndexError
                | a # as \<Rightarrow> map_sum id ((@) a) (format ds as))
             else Inl ValueError)
      else if c = CHR ''}'' then
        (case cs of
           [] \<Rightarrow> Inl ValueError
         | d # ds \<Rightarrow>
             if d = CHR ''}'' then map_sum id ((#) CHR ''}'') (format ds args)
             else Inl ValueError)
      else map_sum id ((#) c) (format cs args))"

definition hex2 :: "nat \<Rightarrow> string" where
  "hex2 n = [''0123456789abcdef'' ! (n div 16), ''0123456789abcdef'' ! (n mod 16)]"

definition bytes_repr :: "bytes \<Rightarrow> string" where
  \<comment> \<open>\<^verbatim>\<open>repr\<close> of a \<^verbatim>\<open>bytes\<close>: double quotes only when the bytes hold a single quote
      and no double quote; the quote and the backslash escaped, tab, LF and CR by letter,
      every other byte outside the printable ASCII range as \<^verbatim>\<open>\xhh\<close>\<close>
  "bytes_repr b =
     (let quote = (if CHR 0x27 \<in> set b \<and> CHR 0x22 \<notin> set b then CHR 0x22 else CHR 0x27);
          esc = (\<lambda>c.
            if c = quote \<or> c = CHR 0x5C then [CHR 0x5C, c]
            else if c = CHR 0x09 then [CHR 0x5C, CHR ''t'']
            else if c = CHR 0x0A then [CHR 0x5C, CHR ''n'']
            else if c = CHR 0x0D then [CHR 0x5C, CHR ''r'']
            else if (of_char c :: nat) < 0x20 \<or> 0x7F \<le> (of_char c :: nat)
              then [CHR 0x5C, CHR ''x''] @ hex2 (of_char c)
            else [c])
      in ''b'' @ [quote] @ concat (map esc b) @ [quote])"

definition py_str :: "pystr \<Rightarrow> string" where
  \<comment> \<open>how \<^verbatim>\<open>{}\<close> renders a value: a \<^verbatim>\<open>str\<close> as itself, a \<^verbatim>\<open>bytes\<close> as its \<^verbatim>\<open>repr\<close>\<close>
  "py_str v = (case v of Str s \<Rightarrow> s | Bytes b \<Rightarrow> bytes_repr b)"

definition truthy :: "pystr option \<Rightarrow> bool" where
  \<comment> \<open>\<^verbatim>\<open>if arch:\<close> for a value that is \<^verbatim>\<open>None\<close>, a \<^verbatim>\<open>str\<close> or a \<^verbatim>\<open>bytes\<close>\<close>
  "truthy v = (case v of None \<Rightarrow> False | Some (Str s) \<Rightarrow> s \<noteq> [] | Some (Bytes b) \<Rightarrow> b \<noteq> [])"

section \<open>The world the scripts act on\<close>

text \<open>
  The collaborators (the device bridge \<^verbatim>\<open>adb\<close>, the release host, the \<^verbatim>\<open>lzma\<close>
  library) are functions of an environment: what each call answers. The scripts'
  own effects are kept in a world: the regular files and directories of the local
  file system, and the trace of the actions taken, in order.
\<close>

type_synonym path = string

datatype level = INFO | WARNING | ERROR

datatype event =
    Log level string
  | Print string
  | Stderr string
  | CheckOutput string
  | HttpGet string
  | OpenWrite path
  | LzmaOpen path
  | Unlink path
  | Popen "string list"
  | OsSystem string

record world =
  files :: "path \<rightharpoonup> bytes"
  dirs :: "path set"
  trace :: "event list"

record proc =
  returncode :: int
  stdout :: bytes
  stderr :: bytes
  seconds :: nat

record response =
  status_code :: nat
  chunks :: "bytes list"

record env =
  FRIDA_VERSION :: string
  DOWNLOAD_PATH :: path
  adb_devices :: "py_error + (string \<times> (string \<times> string) list) list"
  check_output :: "string \<Rightarrow> py_error + bytes"
  requests_get :: "string \<Rightarrow> py_error + response"
  lzma_read :: "bytes \<Rightarrow> py_error + bytes"
  popen :: "string list \<Rightarrow> proc"
  os_system :: "string \<Rightarrow> proc"
  ps_output :: bytes

text \<open>
  Of the errors of the operating system, \<open>FileExistsError\<close> is kept apart, since
  \<^verbatim>\<open>os.makedirs\<close> catches it; \<open>OSError\<close> stands for every other one (a missing
  file or directory, a directory in place of a file and the reverse).

  A step of a script either raises or returns a value, and leaves a world behind
  in both cases.
\<close>

type_synonym 'a run = "world \<Rightarrow> (py_error + 'a) \<times> world"

definition ret :: "'a \<Rightarrow> 'a run" where
  "ret x w = (Inr x, w)"

definition lift :: "py_error + 'a \<Rightarrow> 'a run" where
  "lift r w = (r, w)"

definition throw :: "py_error \<Rightarrow> 'a run" where
  "throw e w = (Inl e, w)"

definition and_then :: "'a run \<Rightarrow> ('a \<Rightarrow> 'b run) \<Rightarrow> 'b run" where
  "and_then m f w = (case m w of (Inl e, w') \<Rightarrow> (Inl e, w') | (Inr x, w') \<Rightarrow> f x w')"

definition emit :: "event \<Rightarrow> unit run" where
  "emit e w = (Inr (), w\<lparr>trace := trace w @ [e]\<rparr>)"

definition attempt :: "'a run \<Rightarrow> unit run" where
  \<comment> \<open>\<^verbatim>\<open>try: ... except: pass\<close>\<close>
  "attempt m w = (case m w of (r, w') \<Rightarrow> (Inr (), w'))"

fun for_each :: "'a list \<Rightarrow> ('a \<Rightarrow> unit run) \<Rightarrow> unit run" where
  "for_each [] f = ret ()"
| "for_each (x # xs) f = and_then (f x) (\<lambda>_. for_each xs f)"

definition log :: "level \<Rightarrow> string \<Rightarrow> string list \<Rightarrow> unit run" where
  \<comment> \<open>\<^verbatim>\<open>log.info(template.format(args))\<close> and its siblings\<close>
  "log lvl template args = and_then (lift (format template args)) (\<lambda>msg. emit (Log lvl msg))"

definition print :: "string \<Rightarrow> string list \<Rightarrow> unit run" where
  "print template args = and_then (lift (format template args)) (\<lambda>msg. emit (Print msg))"

fun show_nat :: "nat \<Rightarrow> string" where
  "show_nat n =
     (if n < 10 then [''0123456789'' ! n]
      else show_nat (n div 10) @ [''0123456789'' ! (n mod 10)])"

declare show_nat.simps [simp del]

subsection \<open>Local files\<close>

text \<open>
  The world holds the regular files by name, with their content, and the names
  of the directories. Names are compared as written: two spellings of one file
  are two names. A name made of slashes only is the root, which always exists,
  and a bare file name lives in the current directory, which always exists too.
  The model has no permissions, no links, and no limit on names or on space.
\<close>

definition path_join :: "path \<Rightarrow> path \<Rightarrow> path" where
  \<comment> \<open>\<^verbatim>\<open>posixpath.join\<close> of two components\<close>
  "path_join a b =
     (if b \<noteq> [] \<and> hd b = CHR ''/'' then b
      else if a = [] \<or> last a = CHR ''/'' then a @ b
      else a @ ''/'' @ b)"

definition rstrip_sep :: "path \<Rightarrow> path" where
  \<comment> \<open>\<^verbatim>\<open>p.rstrip('/')\<close>\<close>
  "rstrip_sep p = rev (dropWhile (\<lambda>c. c = CHR ''/'') (rev p))"

definition split_path :: "path \<Rightarrow> path \<times> path" where
  \<comment> \<open>\<^verbatim>\<open>posixpath.split\<close>: the head loses its trailing slashes unless it is the root\<close>
  "split_path p =
     (let head = rev (dropWhile (\<lambda>c. c \<noteq> CHR ''/'') (rev p));
          tail = rev (takeWhile (\<lambda>c. c \<noteq> CHR ''/'') (rev p))
      in (if head \<noteq> [] \<and> rstrip_sep head \<noteq> [] then rstrip_sep head else head, tail))"

definition dirname :: "path \<Rightarrow> path" where
  "dirname p = fst (split_path p)"

definition basename :: "path \<Rightarrow> path" where
  "basename p = rev (takeWhile (\<lambda>c. c \<noteq> CHR ''/'') (rev p))"

definition isdir :: "world \<Rightarrow> path \<Rightarrow> bool" where
  "isdir w p \<longleftrightarrow> p \<in> dirs w \<or> (p \<noteq> [] \<and> rstrip_sep p = [])"

definition path_exists :: "world \<Rightarrow> path \<Rightarrow> bool" where
  "path_exists w p \<longleftrightarrow> isdir w p \<or> files w p \<noteq> None"

definition isfile :: "path \<Rightarrow> bool run" where
  "isfile p w = (Inr (files w p \<noteq> None), w)"

definition mkdir :: "path \<Rightarrow> unit run" where
  \<comment> \<open>\<^verbatim>\<open>os.mkdir\<close>, which ignores trailing slashes of the name\<close>
  "mkdir p w =
     (let q = (if rstrip_sep p = [] then p else rstrip_sep p) in
      if CHR 0x00 \<in> set p then (Inl ValueError, w)
      else if p = [] then (Inl OSError, w)
      else if path_exists w p \<or> path_exists w q then (Inl FileExistsError, w)
      else if files w (dirname q) \<noteq> None then (Inl OSError, w)
      else if dirname q \<noteq> [] \<and> \<not> isdir w (dirname q) then (Inl OSError, w)
      else (Inr (), w\<lparr>dirs := insert p (insert q (dirs w))\<rparr>))"

text \<open>
  \<^verbatim>\<open>os.makedirs\<close> creates the missing ancestors first, then the directory. A
  name that exists has its ancestors, so the test of the name itself comes
  first here: what exists is left alone.
\<close>

function makedirs :: "path \<Rightarrow> unit run" where
  "makedirs name w =
     (if path_exists w name then (Inl FileExistsError, w)
      else
        let s = split_path name;
            s = (if snd s = [] then split_path (fst s) else s);
            head = fst s;
            tail = snd s
        in
        if head \<noteq> [] \<and> tail \<noteq> [] \<and> \<not> path_exists w head then
          (case makedirs head w of
             (Inl e, w1) \<Rightarrow>
               if e = FileExistsError
               then (if tail = ''.'' then (Inr (), w1) else mkdir name w1)
               else (Inl e, w1)
           | (Inr u, w1) \<Rightarrow> if tail = ''.'' then (Inr (), w1) else mkdir name w1)
        else mkdir name w)"
  by pat_completeness auto
termination
proof (relation "measure (\<lambda>(name, w). length name)")
  show "wf (measure (\<lambda>(name, w). length name))"
    by simp
next
  fix name :: path and w :: world and x xa xb xc
  assume a: "x = split_path name" "xa = (if snd x = [] then split_path (fst x) else x)"
    "xb = fst xa" "xc = snd xa" "xb \<noteq> [] \<and> xc \<noteq> [] \<and> \<not> path_exists w xb"
  have split_le: "length (fst (split_path p)) + length (snd (split_path p)) \<le> length p"
    for p :: path
  proof -
    let ?h = "rev (dropWhile (\<lambda>c. c \<noteq> CHR ''/'') (rev p))"
    let ?t = "rev (takeWhile (\<lambda>c. c \<noteq> CHR ''/'') (rev p))"
    have "length ?h + length ?t = length p"
      by (metis add.commute length_append length_rev takeWhile_dropWhile_id)
    moreover have "length (rstrip_sep ?h) \<le> length ?h"
      unfolding rstrip_sep_def by (metis length_dropWhile_le length_rev)
    then have "length (fst (split_path p)) \<le> length ?h"
      by (simp add: split_path_def Let_def)
    moreover have "snd (split_path p) = ?t"
      by (simp add: split_path_def Let_def)
    ultimately show ?thesis
      by simp
  qed
  have 1: "length (fst x) + length (snd x) \<le> length name"
    using a(1) split_le by simp
  have "length xb + length xc \<le> length name"
  proof (cases "snd x = []")
    case True
    then have "xa = split_path (fst x)"
      using a(2) by simp
    then have "length xb + length xc \<le> length (fst x)"
      using a(3,4) split_le by simp
    with 1 show ?thesis
      by simp
  next
    case False
    then show ?thesis
      using a(2,3,4) 1 by simp
  qed
  with a(5) have "length xb < length name"
    by (cases xc) auto
  then show "((xb, w), name, w) \<in> measure (\<lambda>(name, w). length name)"
    by simp
qed

declare makedirs.simps [simp del]

text \<open>
  \<^verbatim>\<open>open(p, "wb")\<close> raises \<^verbatim>\<open>ValueError\<close> when the name holds a null byte, and
  an \<^verbatim>\<open>OSError\<close> when the name is empty, when its directory is a regular file
  or is missing, and when the name is a directory or ends in a slash. Otherwise
  the file exists afterwards and is empty.
\<close>

definition open_wb :: "path \<Rightarrow> unit run" where
  "open_wb p w =
     (if CHR 0x00 \<in> set p then (Inl ValueError, w)
      else if p = [] then (Inl OSError, w)
      else if files w (dirname p) \<noteq> None then (Inl OSError, w)
      else if dirname p \<noteq> [] \<and> \<not> isdir w (dirname p) then (Inl OSError, w)
      else if isdir w p \<or> last p = CHR ''/'' then (Inl OSError, w)
      else (Inr (), w\<lparr>files := (files w)(p \<mapsto> []), trace := trace w @ [OpenWrite p]\<rparr>))"

definition fh_write :: "path \<Rightarrow> bytes \<Rightarrow> unit run" where
  "fh_write p b w =
     (Inr (), w\<lparr>files := (files w)(p \<mapsto> (case files w p of None \<Rightarrow> [] | Some old \<Rightarrow> old) @ b)\<rparr>)"

definition lzma_open_read :: "env \<Rightarrow> path \<Rightarrow> bytes run" where
  \<comment> \<open>\<^verbatim>\<open>with lzma.open(p) as fh: data = fh.read()\<close>\<close>
  "lzma_open_read E p w =
     (case files w p of
        None \<Rightarrow> (Inl OSError, w)
      | Some b \<Rightarrow> (lzma_read E b, w\<lparr>trace := trace w @ [LzmaOpen p]\<rparr>))"

definition unlink :: "path \<Rightarrow> unit run" where
  "unlink p w =
     (case files w p of
        None \<Rightarrow> (Inl OSError, w)
      | Some b \<Rightarrow> (Inr (), w\<lparr>files := (files w)(p := None), trace := trace w @ [Unlink p]\<rparr>))"

definition http_get :: "env \<Rightarrow> string \<Rightarrow> response run" where
  \<comment> \<open>\<^verbatim>\<open>requests.get(url, stream=True)\<close>\<close>
  "http_get E url w = (requests_get E url, w\<lparr>trace := trace w @ [HttpGet url]\<rparr>)"

definition run_popen :: "env \<Rightarrow> string list \<Rightarrow> proc run" where
  \<comment> \<open>\<^verbatim>\<open>subprocess.Popen(cmd, stdout=PIPE, stderr=PIPE)\<close>; the process is assumed to end\<close>
  "run_popen E cmd w = (Inr (popen E cmd), w\<lparr>trace := trace w @ [Popen cmd]\<rparr>)"

definition run_os_system :: "env \<Rightarrow> string \<Rightarrow> int run" where
  \<comment> \<open>\<^verbatim>\<open>os.system(cmd)\<close>: the exit status comes back, the output goes to the terminal\<close>
  "run_os_system E cmd w =
     (Inr (returncode (os_system E cmd)), w\<lparr>trace := trace w @ [OsSystem cmd]\<rparr>)"

definition wait :: "proc \<Rightarrow> nat \<Rightarrow> py_error + int" where
  \<comment> \<open>\<^verbatim>\<open>res.wait(timeout)\<close>, which raises when the process runs longer\<close>
  "wait res timeout = (if seconds res \<le> timeout then Inr (returncode res) else Inl TimeoutExpired)"

definition readline :: "bytes \<Rightarrow> bytes" where
  "readline b =
     (let line = takeWhile (\<lambda>c. c \<noteq> CHR 0x0A) b
      in if length line < length b then line @ [CHR 0x0A] else line)"

definition join_str :: "string \<Rightarrow> string list \<Rightarrow> string" where
  \<comment> \<open>\<^verbatim>\<open>sep.join(xs)\<close>\<close>
  "join_str sep xs = (case xs of [] \<Rightarrow> [] | x # r \<Rightarrow> x @ concat (map ((@) sep) r))"

definition ADB_PATH :: string where
  "ADB_PATH = ''adb''"

definition adb_path :: string where
  "adb_path = ''adb''"

section \<open>Architecture detection\<close>

definition getprop_archs :: "pystr list" where
  "getprop_archs =
     [Str ''armeabi'', Str ''armeabi-v7a'', Str ''arm64-v8a'', Str ''x86'', Str ''x86_64'']"

definition uname_archs :: "pystr list" where
  "uname_archs = [Str ''i386'', Str ''i686'', Str ''arm64'', Str ''arm'', Str ''x86_64'']"

definition get_device_arch :: "env \<Rightarrow> string \<Rightarrow> pystr option run" where
  "get_device_arch E transport_id =
     and_then (lift (format ''{} -t {} shell getprop ro.product.cpu.abi''
                       [ADB_PATH, transport_id])) (\<lambda>getprop_cmd.
     and_then (emit (CheckOutput getprop_cmd)) (\<lambda>_.
     and_then (lift (check_output E getprop_cmd)) (\<lambda>raw.
     and_then (lift (decode (strip (lower raw)))) (\<lambda>output.
     ret (if output \<in> set getprop_archs then
            (if output \<in> set [Str ''armeabi'', Str ''armeabi-v7a''] then Some (Str ''arm'')
             else if output = Str ''arm64-v8a'' then Some (Str ''arm64'')
             else Some output)
          else None)))))"

text \<open>
  The standalone script asks \<^verbatim>\<open>uname -m\<close> first and decodes its answer. In the
  fallback it compares the undecoded \<^verbatim>\<open>bytes\<close> of \<^verbatim>\<open>getprop\<close> with the table of
  \<^verbatim>\<open>str\<close>.
\<close>

definition get_device_arch_standalone :: "env \<Rightarrow> pystr option run" where
  "get_device_arch_standalone E =
     and_then (lift (format ''{} shell uname -m'' [adb_path])) (\<lambda>uname_cmd.
     and_then (emit (CheckOutput uname_cmd)) (\<lambda>_.
     and_then (lift (check_output E uname_cmd)) (\<lambda>raw.
     and_then (lift (decode (strip (lower raw)))) (\<lambda>output.
       if output \<in> set uname_archs then
         ret (if output \<in> set [Str ''i386'', Str ''i686''] then Some (Str ''i386'')
              else Some output)
       else
         and_then (lift (format ''{} shell getprop ro.product.cpu.abi'' [adb_path]))
           (\<lambda>getprop_cmd.
         and_then (emit (CheckOutput getprop_cmd)) (\<lambda>_.
         and_then (lift (check_output E getprop_cmd)) (\<lambda>raw.
           let output = Bytes (strip (lower raw)) in
           ret (if output \<in> set getprop_archs then
                  (if output \<in> set [Str ''armeabi'', Str ''armeabi-v7a''] then Some (Str ''arm'')
                   else if output = Str ''arm64-v8a'' then Some (Str ''arm64'')
                   else if output = Str ''x86'' then Some (Str ''i386'')
                   else Some output)
                else None))))))))"

section \<open>Download URL\<close>

definition base_url :: string where
  "base_url =
     ''https://github.com/frida/frida/releases/download/{}/frida-server-{}-android-{}.xz''"

text \<open>
  \<^verbatim>\<open>FRIDA_VERSION\<close> is a module constant of both scripts; it is the first argument
  here.
\<close>

definition prepare_download_url :: "string \<Rightarrow> pystr \<Rightarrow> py_error + string" where
  "prepare_download_url version arch = format base_url [version, version, py_str arch]"

definition prepare_download_url_standalone :: "string \<Rightarrow> pystr \<Rightarrow> py_error + string" where
  "prepare_download_url_standalone version arch =
     format base_url [version, version, py_str arch]"

section \<open>Download and extraction\<close>

definition download_and_extract :: "env \<Rightarrow> string \<Rightarrow> string \<Rightarrow> bool \<Rightarrow> bool run" where
  "download_and_extract E url fname force_download =
     and_then (attempt (makedirs (DOWNLOAD_PATH E))) (\<lambda>_.
     let fname = path_join (DOWNLOAD_PATH E) fname in
     and_then (isfile fname) (\<lambda>cached.
       if cached \<and> \<not> force_download then
         and_then (log INFO ''Using {} from downloaded cache'' [basename fname]) (\<lambda>_.
         ret True)
       else
         and_then (log WARNING ''Downloading: {}'' [url]) (\<lambda>_.
         and_then (http_get E url) (\<lambda>req.
         and_then
           (if status_code req = 200 then
              (let archive_name = fname @ ''.xz'' in
               and_then (open_wb archive_name) (\<lambda>_.
               and_then (for_each (chunks req) (fh_write archive_name)) (\<lambda>_.
               and_then (lzma_open_read E archive_name) (\<lambda>data.
               and_then (unlink archive_name) (\<lambda>_.
               ret (Some data))))))
            else
              and_then
                (log ERROR
                   ''ERROR: downloading frida-server. Got HTTP status code {} from server.''
                   [show_nat (status_code req)]) (\<lambda>_.
              ret None)) (\<lambda>data.
         case data of
           None \<Rightarrow> ret False
         | Some d \<Rightarrow>
             if d \<noteq> [] then
               and_then (log INFO ''Writing file as: {}'' [fname]) (\<lambda>_.
               and_then (open_wb fname) (\<lambda>_.
               and_then (fh_write fname d) (\<lambda>_.
               ret True)))
             else ret False)))))"

definition download_and_extract_standalone :: "env \<Rightarrow> string \<Rightarrow> string \<Rightarrow> bool run" where
  "download_and_extract_standalone E url fname =
     and_then (print (CHR 0x09 # ''[+] Downloading: {}'') [url]) (\<lambda>_.
     and_then (http_get E url) (\<lambda>req.
     and_then
       (if status_code req = 200 then
          (let archive_name = fname @ ''.xz'' in
           and_then (open_wb archive_name) (\<lambda>_.
           and_then (for_each (chunks req) (fh_write archive_name)) (\<lambda>_.
           and_then (lzma_open_read E archive_name) (\<lambda>data.
           ret (Some data)))))
        else
          and_then (print (CHR 0x09 # ''[-] Error downloading frida-server.'') []) (\<lambda>_.
          and_then (print (CHR 0x09 # ''[-] Got HTTP status code {} from server.'')
                      [show_nat (status_code req)]) (\<lambda>_.
          ret None))) (\<lambda>data.
     case data of
       None \<Rightarrow> ret False
     | Some d \<Rightarrow>
         if d \<noteq> [] then
           and_then (print (CHR 0x09 # ''[+] Writing file as: {}.'') [fname]) (\<lambda>_.
           and_then (open_wb fname) (\<lambda>_.
           and_then (fh_write fname d) (\<lambda>_.
           ret True)))
         else ret False)))"

section \<open>Deployment\<close>

definition remote_path :: string where
  "remote_path = ''/data/local/tmp/frida-server''"

definition push_and_execute :: "env \<Rightarrow> string \<Rightarrow> string \<Rightarrow> unit run" where
  "push_and_execute E fname transport_id =
     (let fname = path_join (DOWNLOAD_PATH E) fname;
          push_cmd = [ADB_PATH, ''-t'', transport_id, ''push'', fname, remote_path];
          chmod_cmd = [ADB_PATH, ''-t'', transport_id, ''shell'', ''chmod 0755 '' @ remote_path];
          kill_cmd = [ADB_PATH, ''-t'', transport_id, ''shell'', ''su 0 killall frida-server''];
          execute_cmd = [ADB_PATH, ''-t'', transport_id, ''shell'',
                         ''su 0 '' @ [CHR 0x27] @ remote_path @ [CHR 0x27]]
      in
      and_then (run_popen E push_cmd) (\<lambda>res.
      if returncode res \<noteq> 0 then
        and_then (lift (decode (stdout res))) (\<lambda>out.
        and_then (lift (decode (stderr res))) (\<lambda>err.
        log ERROR ''Could not push the binary to device. {}{}'' [py_str out, py_str err]))
      else
        and_then (emit (Log INFO ''File pushed to device successfully.'')) (\<lambda>_.
        and_then (run_popen E chmod_cmd) (\<lambda>_.
        and_then (emit (Log INFO ''Killing all frida-server on device.'')) (\<lambda>_.
        and_then (run_popen E kill_cmd) (\<lambda>_.
        and_then (emit (Log INFO ''Executing frida-server on device.'')) (\<lambda>_.
        and_then (run_popen E execute_cmd) (\<lambda>res.
        let ret_code = (case wait res 3 of Inl _ \<Rightarrow> None | Inr c \<Rightarrow> Some c) in
        if ret_code \<noteq> None \<and> ret_code \<noteq> Some 0 then
          and_then (lift (decode (readline (stderr res)))) (\<lambda>line.
          log ERROR ''Error executing frida-server. {}'' [py_str line])
        else ret ()))))))))"

text \<open>
  The standalone script runs its commands through \<^verbatim>\<open>os.system\<close>, which hands
  back the exit status only; what the command prints goes to the terminal. The
  last command redirects into \<^verbatim>\<open>frida.pid\<close>.
\<close>

definition push_and_execute_standalone :: "env \<Rightarrow> string \<Rightarrow> unit run" where
  "push_and_execute_standalone E fname =
     and_then (lift (format (''{} push {} '' @ remote_path) [adb_path, fname])) (\<lambda>push_cmd.
     and_then (lift (format (''{} shell chmod 0755 '' @ remote_path) [adb_path])) (\<lambda>chmod_cmd.
     and_then (lift (format (''{} shell su 0 '' @ [CHR 0x27] @ remote_path @ [CHR 0x27] @ '' &'')
                       [adb_path])) (\<lambda>execute_cmd.
     let ps_cmd = adb_path @ '' shell '' @ [CHR 0x27] @ ''su 0 ps'' @ [CHR 0x27]
                  @ '' | grep frida-server | awk '' @ [CHR 0x27] @ ''{print $2}'' @ [CHR 0x27]
                  @ '' > frida.pid''
     in
     and_then (run_os_system E push_cmd) (\<lambda>status_code.
     if status_code = 0 then
       and_then (emit (Print (CHR 0x09 # ''[+] File pushed to device successfully.''))) (\<lambda>_.
       and_then (run_os_system E chmod_cmd) (\<lambda>_.
       and_then (emit (Print (CHR 0x09 # ''[+] Executing frida-server on device.''))) (\<lambda>_.
       and_then (run_os_system E execute_cmd) (\<lambda>_.
       and_then (emit (Print (CHR 0x09
                   # ''[+] Fetching the PID of frida-server and saving it to file.''))) (\<lambda>_.
       and_then (run_os_system E ps_cmd) (\<lambda>_.
       (\<lambda>w. (Inr (), w\<lparr>files := (files w)(''frida.pid'' \<mapsto> ps_output E)\<rparr>))))))))
     else
       emit (Print ''[-] Could not push the binary to device.'')))))"

section \<open>The two entry points\<close>

text \<open>
  \<^verbatim>\<open>list_devices\<close> runs \<^verbatim>\<open>adb devices -l\<close> and parses its lines into a
  dictionary from device name to properties. The parsed dictionary (or the
  exception of the call) is the environment's answer; a dictionary is an
  association list in the order of its items.
\<close>

definition list_devices :: "env \<Rightarrow> (string \<times> (string \<times> string) list) list run" where
  "list_devices E =
     and_then (lift (format ''{} devices -l | tail -n+2'' [ADB_PATH])) (\<lambda>cmd.
     and_then (emit (CheckOutput cmd)) (\<lambda>_.
     lift (adb_devices E)))"

record ops =
  device_name :: "string option"
  force :: bool

definition parser_exit :: "nat \<Rightarrow> string \<Rightarrow> 'a run" where
  \<comment> \<open>\<^verbatim>\<open>parser.exit(status, message)\<close>: the message to stderr, then \<^verbatim>\<open>sys.exit(status)\<close>\<close>
  "parser_exit status message = and_then (emit (Stderr message)) (\<lambda>_. throw (SystemExit status))"

definition main :: "env \<Rightarrow> ops \<Rightarrow> unit run" where
  "main E ops =
     and_then (list_devices E) (\<lambda>devices.
     and_then
       (if length devices = 0 then
          and_then (emit (Log ERROR ''No device found. Exiting.'')) (\<lambda>_.
          throw (SystemExit 1))
        else ret ()) (\<lambda>_.
     and_then (log INFO ''Devices: {}'' [join_str '', '' (map fst devices)]) (\<lambda>_.
     and_then
       (case device_name ops of
          None \<Rightarrow>
            if length devices \<noteq> 1 then
              parser_exit 2 (''Multiple devices conected select one with -d'' @ [CHR 0x0A])
            else ret ()
        | Some name \<Rightarrow>
            if name \<notin> set (map fst devices) then
              and_then (lift (format (''Device {} not found'' @ [CHR 0x0A]) [name])) (\<lambda>msg.
              parser_exit 2 msg)
            else ret ()) (\<lambda>_.
     and_then
       (case device_name ops of
          None \<Rightarrow> (case devices of [] \<Rightarrow> throw TypeError | (dname, _) # _ \<Rightarrow> ret dname)
        | Some name \<Rightarrow> ret name) (\<lambda>device_name.
     and_then (log INFO ''Current installed Frida version: {}'' [FRIDA_VERSION E]) (\<lambda>_.
     and_then
       (case map_of devices device_name of
          None \<Rightarrow> throw KeyError
        | Some props \<Rightarrow>
            (case map_of props ''transport_id'' of
               None \<Rightarrow> throw KeyError
             | Some t \<Rightarrow> ret t)) (\<lambda>transport_id.
     and_then (get_device_arch E transport_id) (\<lambda>arch.
     case arch of
       None \<Rightarrow> emit (Log INFO (''Could not determine device'' @ [CHR 0x27] @ ''s arch. Exiting.''))
     | Some a \<Rightarrow>
         if truthy arch then
           and_then (log INFO ''Found arch: {}'' [py_str a]) (\<lambda>_.
           and_then (lift (prepare_download_url (FRIDA_VERSION E) a)) (\<lambda>url.
           and_then (lift (format ''frida-server-{}-android-{}'' [FRIDA_VERSION E, py_str a]))
             (\<lambda>fname.
           and_then (download_and_extract E url fname (force ops)) (\<lambda>ok.
           if ok then push_and_execute E fname transport_id else ret ()))))
         else
           emit (Log INFO (''Could not determine device'' @ [CHR 0x27] @ ''s arch. Exiting.''))))))))))"



section \<open>Observations on a run\<close>

definition new_events :: "'a run \<Rightarrow> world \<Rightarrow> event list" where
  \<comment> \<open>the actions a run adds to the trace\<close>
  "new_events m w = drop (length (trace w)) (trace (snd (m w)))"

definition can_open_wb :: "world \<Rightarrow> path \<Rightarrow> bool" where
  \<comment> \<open>the name can be opened for writing: it is a proper file name, its directory
      exists, and it is not a directory itself\<close>
  "can_open_wb w p \<longleftrightarrow>
     CHR 0x00 \<notin> set p \<and> p \<noteq> [] \<and> last p \<noteq> CHR ''/''
     \<and> files w (dirname p) = None
     \<and> (dirname p = [] \<or> isdir w (dirname p))
     \<and> \<not> isdir w p"

definition cache_dir_made :: "env \<Rightarrow> world \<Rightarrow> world" where
  \<comment> \<open>the world after \<^verbatim>\<open>try: os.makedirs(DOWNLOAD_PATH) except: pass\<close>\<close>
  "cache_dir_made E w = snd (attempt (makedirs (DOWNLOAD_PATH E)) w)"

definition getprop_cmd_of :: "string \<Rightarrow> string" where
  \<comment> \<open>the property query of the packaged command for a transport id\<close>
  "getprop_cmd_of transport_id =
     ADB_PATH @ '' -t '' @ transport_id @ '' shell getprop ro.product.cpu.abi''"

definition uname_cmd :: string where
  "uname_cmd = ''adb shell uname -m''"

definition getprop_cmd_standalone :: string where
  "getprop_cmd_standalone = ''adb shell getprop ro.product.cpu.abi''"

definition canonical_key :: "bytes \<Rightarrow> pystr option" where
  \<comment> \<open>the normalization table as the specification documents it, on a trimmed,
      lower-cased raw string\<close>
  "canonical_key s =
     (if s = ''armeabi'' \<or> s = ''armeabi-v7a'' then Some (Str ''arm'')
      else if s = ''arm64-v8a'' then Some (Str ''arm64'')
      else if s = ''x86'' then Some (Str ''x86'')
      else if s = ''x86_64'' then Some (Str ''x86_64'')
      else None)"


fun infix_of :: "string \<Rightarrow> string \<Rightarrow> bool" where
  \<comment> \<open>\<open>x\<close> occurs in \<open>m\<close> as a contiguous piece\<close>
  "infix_of x [] = (x = [])"
| "infix_of x (c # m) = (take (length x) (c # m) = x \<or> infix_of x m)"

definition is_report :: "event \<Rightarrow> string \<Rightarrow> bool" where
  \<comment> \<open>an error message to the log or to the terminal that carries the text\<close>
  "is_report e x =
     (case e of Log lvl m \<Rightarrow> lvl = ERROR \<and> infix_of x m | Print m \<Rightarrow> infix_of x m | _ \<Rightarrow> False)"

definition reports_output :: "event list \<Rightarrow> proc \<Rightarrow> bool" where
  \<comment> \<open>some report carries what the process wrote to stdout and to stderr\<close>
  "reports_output evs res \<longleftrightarrow>
     list_ex (\<lambda>e. is_report e (stdout res) \<and> is_report e (stderr res)) evs"

definition is_command :: "event \<Rightarrow> bool" where
  \<comment> \<open>a command handed to the device bridge by the deploy sequence\<close>
  "is_command e = (case e of Popen c \<Rightarrow> True | OsSystem c \<Rightarrow> True | _ \<Rightarrow> False)"

definition push_cmd_of :: "env \<Rightarrow> string \<Rightarrow> string \<Rightarrow> string list" where
  \<comment> \<open>the commands of the packaged command's deploy sequence, by name\<close>
  "push_cmd_of E fname transport_id =
     [ADB_PATH, ''-t'', transport_id, ''push'', path_join (DOWNLOAD_PATH E) fname, remote_path]"

definition chmod_cmd_of :: "string \<Rightarrow> string list" where
  "chmod_cmd_of transport_id =
     [ADB_PATH, ''-t'', transport_id, ''shell'', ''chmod 0755 '' @ remote_path]"

definition kill_cmd_of :: "string \<Rightarrow> string list" where
  "kill_cmd_of transport_id =
     [ADB_PATH, ''-t'', transport_id, ''shell'', ''su 0 killall frida-server'']"

definition launch_text :: string where
  "launch_text = ''su 0 '' @ [CHR 0x27] @ remote_path @ [CHR 0x27]"

definition execute_cmd_of :: "string \<Rightarrow> string list" where
  "execute_cmd_of transport_id = [ADB_PATH, ''-t'', transport_id, ''shell'', launch_text]"

definition push_cmd_standalone :: "string \<Rightarrow> string" where
  "push_cmd_standalone fname = adb_path @ '' push '' @ fname @ '' '' @ remote_path"

definition is_kill :: "event \<Rightarrow> bool" where
  \<comment> \<open>the command that terminates a running server, in either way of running it\<close>
  "is_kill e =
     (case e of
        Popen c \<Rightarrow> length c = 5 \<and> drop 3 c = [''shell'', ''su 0 killall frida-server'']
      | OsSystem c \<Rightarrow> c = adb_path @ '' shell su 0 killall frida-server''
      | _ \<Rightarrow> False)"

definition is_launch :: "event \<Rightarrow> bool" where
  \<comment> \<open>the command that starts the server\<close>
  "is_launch e =
     (case e of
        Popen c \<Rightarrow> length c = 5 \<and> drop 3 c = [''shell'', launch_text]
      | OsSystem c \<Rightarrow> c = adb_path @ '' shell '' @ launch_text @ '' &''
      | _ \<Rightarrow> False)"

fun kill_before_launch :: "event list \<Rightarrow> bool" where
  \<comment> \<open>no launch command comes before the first kill command\<close>
  "kill_before_launch [] = True"
| "kill_before_launch (e # es) =
     (if is_kill e then True else if is_launch e then False else kill_before_launch es)"

definition is_HttpGet :: "event \<Rightarrow> bool" where
  "is_HttpGet e = (case e of HttpGet u \<Rightarrow> True | _ \<Rightarrow> False)"

section \<open>Sample inputs\<close>

definition LF :: char where
  "LF = CHR 0x0A"

definition w_empty :: world where
  "w_empty = \<lparr>files = Map.empty, dirs = {}, trace = []\<rparr>"

definition exited :: "int \<Rightarrow> bytes \<Rightarrow> bytes \<Rightarrow> proc" where
  "exited code out err = \<lparr>returncode = code, stdout = out, stderr = err, seconds = 0\<rparr>"

definition E_arm :: env where
  \<comment> \<open>one 32-bit ARM phone; the release host serves an archive that decompresses\<close>
  "E_arm =
     \<lparr>FRIDA_VERSION = ''16.0.8'',
      DOWNLOAD_PATH = ''/home/user/.frida-push'',
      adb_devices = Inr [(''0a1b2c3d'', [(''product'', ''hammerhead''), (''transport_id'', ''1'')])],
      check_output = (\<lambda>c.
        if c = uname_cmd then Inr (''armv7l'' @ [LF])
        else if c = getprop_cmd_standalone \<or> c = getprop_cmd_of ''1''
          then Inr (''armeabi-v7a'' @ [LF])
        else Inr (''0a1b2c3d device'' @ [LF])),
      requests_get = (\<lambda>u. Inr \<lparr>status_code = 200, chunks = [''XZ'', ''DATA'']\<rparr>),
      lzma_read = (\<lambda>b. if b = ''XZDATA'' then Inr ''ELF'' else Inl LZMAError),
      popen = (\<lambda>c. exited 0 [] []\<lparr>seconds := 3600\<rparr>),
      os_system = (\<lambda>c. exited 0 [] []),
      ps_output = ''4242'' @ [LF]\<rparr>"

definition E_x86 :: env where
  \<comment> \<open>the same with a 32-bit x86 device\<close>
  "E_x86 =
     E_arm\<lparr>check_output := (\<lambda>c.
        if c = uname_cmd then Inr (''i686'' @ [LF])
        else if c = getprop_cmd_standalone \<or> c = getprop_cmd_of ''1'' then Inr (''x86'' @ [LF])
        else Inr (''0a1b2c3d device'' @ [LF]))\<rparr>"

definition E_push_fails :: env where
  \<comment> \<open>the bridge refuses every command and says why on stderr\<close>
  "E_push_fails =
     E_arm\<lparr>popen := (\<lambda>c. exited 1 [] ''adb: error: device offline''),
           os_system := (\<lambda>c. exited 1 [] ''adb: error: device offline'')\<rparr>"

definition E_push_garbled :: env where
  \<comment> \<open>the push fails and writes a byte to stderr that is not UTF-8\<close>
  "E_push_garbled = E_arm\<lparr>popen := (\<lambda>c. exited 1 [] [CHR 0xFF])\<rparr>"

definition E_404 :: env where
  "E_404 = E_arm\<lparr>requests_get := (\<lambda>u. Inr \<lparr>status_code = 404, chunks = [''Not Found'']\<rparr>)\<rparr>"

definition E_empty_archive :: env where
  \<comment> \<open>the archive decompresses to nothing\<close>
  "E_empty_archive = E_arm\<lparr>lzma_read := (\<lambda>b. Inr [])\<rparr>"

definition E_x86_64 :: env where
  \<comment> \<open>a 64-bit x86 emulator\<close>
  "E_x86_64 =
     E_arm\<lparr>check_output := (\<lambda>c.
        if c = uname_cmd then Inr (''x86_64'' @ [LF])
        else if c = getprop_cmd_standalone \<or> c = getprop_cmd_of ''1''
          then Inr (''x86_64'' @ [LF])
        else Inr (''emulator-5554 device'' @ [LF]))\<rparr>"

definition w_cached :: world where
  \<comment> \<open>the cache holds the server for the ARM phone\<close>
  "w_cached =
     \<lparr>files = [''/home/user/.frida-push/frida-server-16.0.8-android-arm'' \<mapsto> ''ELF''],
      dirs = {''/home/user/.frida-push''},
      trace = []\<rparr>"

definition E_no_device :: env where
  "E_no_device = E_arm\<lparr>adb_devices := Inr []\<rparr>"

definition E_two_devices :: env where
  "E_two_devices =
     E_arm\<lparr>adb_devices := Inr [(''0a1b2c3d'', [(''transport_id'', ''1'')]),
                               (''emulator-5554'', [(''transport_id'', ''2'')])]\<rparr>"

definition no_name :: ops where
  "no_name = \<lparr>device_name = None, force = False\<rparr>"

definition named :: "string \<Rightarrow> ops" where
  "named n = \<lparr>device_name = Some n, force = False\<rparr>"

section \<open>Postconditions on the trace\<close>

text \<open>
  \<open>post m pre Q\<close>: from any world, the run \<open>m\<close> only appends to the trace, and
  \<open>Q\<close> holds of its result and of \<open>pre\<close> followed by what it appended.
\<close>

definition post ::
  "'a run \<Rightarrow> event list \<Rightarrow> ((py_error + 'a) \<Rightarrow> event list \<Rightarrow> bool) \<Rightarrow> bool" where
  "post m pre Q \<longleftrightarrow>
     (\<forall>w. \<exists>evs. trace (snd (m w)) = trace w @ evs \<and> Q (fst (m w)) (pre @ evs))"

section \<open>Properties\<close>

lemmas run_defs =
  ret_def lift_def throw_def and_then_def emit_def attempt_def log_def print_def

lemmas bytes_defs =
  decode_def utf8_valid_def cont_def strip_def lower_def lower_byte_def is_space_def

lemmas fs_defs =
  isfile_def open_wb_def fh_write_def lzma_open_read_def unlink_def http_get_def

lemmas proc_defs =
  run_popen_def run_os_system_def wait_def readline_def

lemmas sample_defs =
  E_no_device_def E_two_devices_def no_name_def named_def w_cached_def E_push_garbled_def
  E_arm_def E_x86_def E_x86_64_def E_push_fails_def E_404_def E_empty_archive_def
  w_empty_def exited_def LF_def uname_cmd_def getprop_cmd_standalone_def getprop_cmd_of_def
  ADB_PATH_def adb_path_def

subsection \<open>Architecture detection\<close>




text \<open>
  C1. The claim: every raw string of the normalization table (trimmed, compared
  without case) is mapped to its canonical key by the detection function of both
  scripts, and every other string to \<^verbatim>\<open>None\<close>. On a 32-bit ARM phone, where
  \<^verbatim>\<open>uname -m\<close> answers \<^verbatim>\<open>armv7l\<close> and \<^verbatim>\<open>getprop\<close> answers \<^verbatim>\<open>armeabi-v7a\<close>, the
  packaged command returns \<^verbatim>\<open>arm\<close>, and the standalone script returns
  \<^verbatim>\<open>None\<close>: it compares the undecoded bytes with a table of strings.
\<close>

theorem get_device_arch_standalone_misses_table:
  "fst (get_device_arch_standalone E_arm w_empty) = Inr None
   \<and> canonical_key (strip (lower (''armeabi-v7a'' @ [LF]))) = Some (Str ''arm'')
   \<and> fst (get_device_arch E_arm ''1'' w_empty) = Inr (Some (Str ''arm''))"
  by (simp add: get_device_arch_standalone_def get_device_arch_def run_defs bytes_defs
      sample_defs getprop_archs_def uname_archs_def canonical_key_def)

subsection \<open>Download URL\<close>

text \<open>
  C2. \<^verbatim>\<open>prepare_download_url\<close> is a function of the version and the
  architecture alone, and its result is the template
  \<^verbatim>\<open>{base}/{version}/frida-server-{version}-android-{arch}.xz\<close> filled in, in both
  scripts; for the key \<^verbatim>\<open>arm64\<close> the URL ends in
  \<^verbatim>\<open>/{version}/frida-server-{version}-android-arm64.xz\<close>.
\<close>

theorem prepare_download_url_template:
  "prepare_download_url v (Str a) =
     Inr (''https://github.com/frida/frida/releases/download'' @ ''/'' @ v
          @ ''/frida-server-'' @ v @ ''-android-'' @ a @ ''.xz'')
   \<and> prepare_download_url_standalone v (Str a) =
     Inr (''https://github.com/frida/frida/releases/download'' @ ''/'' @ v
          @ ''/frida-server-'' @ v @ ''-android-'' @ a @ ''.xz'')
   \<and> prepare_download_url v (Str ''arm64'') =
     Inr (''https://github.com/frida/frida/releases/download/'' @ v
          @ ''/frida-server-'' @ v @ ''-android-arm64.xz'')"
  by (simp add: prepare_download_url_def prepare_download_url_standalone_def base_url_def
      py_str_def)

subsection \<open>The two variants compared\<close>




subsection \<open>Download and extraction\<close>

lemma for_each_write:
  "files w p = Some old \<Longrightarrow>
   for_each cs (fh_write p) w = (Inr (), w\<lparr>files := (files w)(p \<mapsto> old @ concat cs)\<rparr>)"
proof (induction cs arbitrary: w old)
  case Nil
  then have "(files w)(p \<mapsto> old) = files w"
    by (simp add: map_upd_triv)
  then show ?case
    by (simp add: ret_def)
next
  case (Cons c cs)
  let ?w1 = "w\<lparr>files := (files w)(p \<mapsto> old @ c)\<rparr>"
  have step: "fh_write p c w = (Inr (), ?w1)"
    using Cons.prems by (simp add: fh_write_def)
  have "files ?w1 p = Some (old @ c)"
    by simp
  from Cons.IH [OF this]
  have "for_each cs (fh_write p) ?w1 =
          (Inr (), ?w1\<lparr>files := (files ?w1)(p \<mapsto> (old @ c) @ concat cs)\<rparr>)" .
  then show ?case
    by (simp add: and_then_def step fun_upd_def cong: if_cong)
qed

lemma mkdir_frame: "files (snd (mkdir p w)) = files w \<and> trace (snd (mkdir p w)) = trace w"
  by (simp add: mkdir_def Let_def)

lemma makedirs_frame:
  "files (snd (makedirs p w)) = files w \<and> trace (snd (makedirs p w)) = trace w"
proof (induction p w rule: makedirs.induct)
  case (1 name w)
  let ?s = "if snd (split_path name) = [] then split_path (fst (split_path name))
            else split_path name"
  let ?rec = "fst ?s \<noteq> [] \<and> snd ?s \<noteq> [] \<and> \<not> path_exists w (fst ?s)"
  have eq: "makedirs name w =
     (if path_exists w name then (Inl FileExistsError, w)
      else if ?rec then
          (case makedirs (fst ?s) w of
             (Inl e, w1) \<Rightarrow>
               if e = FileExistsError
               then (if snd ?s = ''.'' then (Inr (), w1) else mkdir name w1)
               else (Inl e, w1)
           | (Inr u, w1) \<Rightarrow> if snd ?s = ''.'' then (Inr (), w1) else mkdir name w1)
        else mkdir name w)"
    by (subst makedirs.simps) (simp only: Let_def)
  show ?case
  proof (cases "path_exists w name")
    case True
    then show ?thesis
      by (simp only: eq if_True snd_conv simp_thms)
  next
    case False
    show ?thesis
    proof (cases ?rec)
      case True
      from "1.IH" [OF False refl refl refl refl True]
      have ih: "files (snd (makedirs (fst ?s) w)) = files w
              \<and> trace (snd (makedirs (fst ?s) w)) = trace w" .
      obtain r w1 where m: "makedirs (fst ?s) w = (r, w1)"
        by (cases "makedirs (fst ?s) w")
      from ih have w1: "files w1 = files w" "trace w1 = trace w"
        by (simp_all only: m snd_conv)
      have "makedirs name w = (Inl (projl r), w1) \<or> makedirs name w = (Inr (), w1)
          \<or> makedirs name w = mkdir name w1"
        by (simp only: eq False True m if_True if_False prod.case)
           (cases r; simp)
      then show ?thesis
        using w1 mkdir_frame [of name w1] by auto
    next
      case no: False
      have "makedirs name w = mkdir name w"
        by (simp only: eq False no if_False)
      then show ?thesis
        using mkdir_frame [of name w] by simp
    qed
  qed
qed

lemma makedirs_exists: "path_exists w p \<Longrightarrow> makedirs p w = (Inl FileExistsError, w)"
  by (subst makedirs.simps) simp

lemma attempt_makedirs:
  "attempt (makedirs (DOWNLOAD_PATH E)) w = (Inr (), cache_dir_made E w)"
  by (cases "makedirs (DOWNLOAD_PATH E) w") (simp add: cache_dir_made_def attempt_def)

lemma cache_dir_made_simps:
  "files (cache_dir_made E w) = files w"
  "trace (cache_dir_made E w) = trace w"
  "DOWNLOAD_PATH E \<in> dirs w \<Longrightarrow> cache_dir_made E w = w"
proof -
  have "snd (attempt (makedirs (DOWNLOAD_PATH E)) w) = snd (makedirs (DOWNLOAD_PATH E) w)"
    by (cases "makedirs (DOWNLOAD_PATH E) w") (simp add: attempt_def)
  then show "files (cache_dir_made E w) = files w" "trace (cache_dir_made E w) = trace w"
    using makedirs_frame [of "DOWNLOAD_PATH E" w] by (simp_all add: cache_dir_made_def)
  show "DOWNLOAD_PATH E \<in> dirs w \<Longrightarrow> cache_dir_made E w = w"
    by (simp add: cache_dir_made_def attempt_def makedirs_exists path_exists_def isdir_def)
qed

lemma open_wb_ok:
  "can_open_wb w p \<Longrightarrow>
   open_wb p w = (Inr (), w\<lparr>files := (files w)(p \<mapsto> []), trace := trace w @ [OpenWrite p]\<rparr>)"
  by (auto simp add: open_wb_def can_open_wb_def)

lemma can_open_wb_trace: "can_open_wb (w\<lparr>trace := t\<rparr>) p = can_open_wb w p"
  by (simp add: can_open_wb_def isdir_def)

lemma can_open_wb_files:
  "f (dirname p) = files w (dirname p) \<Longrightarrow> can_open_wb (w\<lparr>files := f\<rparr>) p = can_open_wb w p"
  by (simp add: can_open_wb_def isdir_def)

lemmas dl_defs = ret_def lift_def throw_def and_then_def emit_def log_def print_def
  isfile_def fh_write_def lzma_open_read_def unlink_def http_get_def

lemma download_hit:
  assumes "files w (path_join (DOWNLOAD_PATH E) fname) \<noteq> None"
    and "DOWNLOAD_PATH E \<in> dirs w"
  shows "download_and_extract E url fname False w =
           (Inr True,
            w\<lparr>trace := trace w @
                 [Log INFO (''Using '' @ basename (path_join (DOWNLOAD_PATH E) fname)
                            @ '' from downloaded cache'')]\<rparr>)"
  using assms
  by (simp add: download_and_extract_def dl_defs Let_def attempt_makedirs cache_dir_made_simps)



lemma length_dirname: "length (dirname p) \<le> length p"
proof -
  let ?h = "rev (dropWhile (\<lambda>c. c \<noteq> CHR ''/'') (rev p))"
  have "length ?h \<le> length p"
    by (metis length_dropWhile_le length_rev)
  moreover have "length (rstrip_sep ?h) \<le> length ?h"
    unfolding rstrip_sep_def by (metis length_dropWhile_le length_rev)
  ultimately show ?thesis
    by (simp add: dirname_def split_path_def Let_def)
qed

lemma dirname_neq_archive: "dirname p \<noteq> p @ ''.xz''"
proof
  assume "dirname p = p @ ''.xz''"
  then have "length (dirname p) = length p + 3"
    by simp
  with length_dirname [of p] show False
    by simp
qed


lemma download_fetched:
  assumes "requests_get E url = Inr req"
    and "status_code req = 200"
    and "lzma_read E (concat (chunks req)) = Inr data"
    and "files w (path_join (DOWNLOAD_PATH E) fname) = None \<or> force_download"
    and "can_open_wb (cache_dir_made E w) (path_join (DOWNLOAD_PATH E) fname @ ''.xz'')"
    and "data \<noteq> [] \<longrightarrow> can_open_wb (cache_dir_made E w) (path_join (DOWNLOAD_PATH E) fname)"
  shows "download_and_extract E url fname force_download w =
      (if data \<noteq> [] then
        (Inr True, (cache_dir_made E w)\<lparr>
          files := (files w)(path_join (DOWNLOAD_PATH E) fname @ ''.xz'' := None,
                             path_join (DOWNLOAD_PATH E) fname \<mapsto> data),
          trace := trace w @
            [Log WARNING (''Downloading: '' @ url), HttpGet url,
             OpenWrite (path_join (DOWNLOAD_PATH E) fname @ ''.xz''),
             LzmaOpen (path_join (DOWNLOAD_PATH E) fname @ ''.xz''),
             Unlink (path_join (DOWNLOAD_PATH E) fname @ ''.xz''),
             Log INFO (''Writing file as: '' @ path_join (DOWNLOAD_PATH E) fname),
             OpenWrite (path_join (DOWNLOAD_PATH E) fname)]\<rparr>)
       else
        (Inr False, (cache_dir_made E w)\<lparr>
          files := (files w)(path_join (DOWNLOAD_PATH E) fname @ ''.xz'' := None),
          trace := trace w @
            [Log WARNING (''Downloading: '' @ url), HttpGet url,
             OpenWrite (path_join (DOWNLOAD_PATH E) fname @ ''.xz''),
             LzmaOpen (path_join (DOWNLOAD_PATH E) fname @ ''.xz''),
             Unlink (path_join (DOWNLOAD_PATH E) fname @ ''.xz'')]\<rparr>))"
  using assms
  by (auto simp add: download_and_extract_def dl_defs Let_def attempt_makedirs
      cache_dir_made_simps open_wb_ok can_open_wb_trace can_open_wb_files dirname_neq_archive
      for_each_write)

lemma download_fetched_standalone:
  assumes "requests_get E url = Inr req"
    and "status_code req = 200"
    and "lzma_read E (concat (chunks req)) = Inr data"
    and "can_open_wb w (fname @ ''.xz'')"
    and "data \<noteq> [] \<longrightarrow> can_open_wb w fname"
  shows "download_and_extract_standalone E url fname w =
      (if data \<noteq> [] then
        (Inr True, w\<lparr>
          files := (files w)(fname @ ''.xz'' \<mapsto> concat (chunks req), fname \<mapsto> data),
          trace := trace w @
            [Print (CHR 0x09 # ''[+] Downloading: '' @ url), HttpGet url,
             OpenWrite (fname @ ''.xz''), LzmaOpen (fname @ ''.xz''),
             Print (CHR 0x09 # ''[+] Writing file as: '' @ fname @ ''.''),
             OpenWrite fname]\<rparr>)
       else
        (Inr False, w\<lparr>
          files := (files w)(fname @ ''.xz'' \<mapsto> concat (chunks req)),
          trace := trace w @
            [Print (CHR 0x09 # ''[+] Downloading: '' @ url), HttpGet url,
             OpenWrite (fname @ ''.xz''), LzmaOpen (fname @ ''.xz'')]\<rparr>))"
  using assms
  by (auto simp add: download_and_extract_standalone_def dl_defs Let_def
      open_wb_ok can_open_wb_trace can_open_wb_files dirname_neq_archive for_each_write)

lemma cache_dir_fresh:
  "dirs (cache_dir_made E_arm w_empty)
     = {''/home/user/.frida-push'', ''/home/user'', ''/home''}"
  by (simp add: cache_dir_made_def attempt_def makedirs.simps sample_defs split_path_def
      rstrip_sep_def path_exists_def isdir_def mkdir_def dirname_def Let_def)

lemma can_open_cache_sample:
  "can_open_wb (cache_dir_made E_arm w_empty)
     ''/home/user/.frida-push/frida-server-16.0.8-android-arm.xz''"
  "can_open_wb (cache_dir_made E_arm w_empty)
     ''/home/user/.frida-push/frida-server-16.0.8-android-arm''"
  by (simp_all add: can_open_wb_def cache_dir_fresh cache_dir_made_simps isdir_def dirname_def
      split_path_def rstrip_sep_def Let_def) (simp_all add: sample_defs)

lemma can_open_cwd_sample:
  "can_open_wb w_empty ''frida-server-16.0.8-android-arm.xz''"
  "can_open_wb w_empty ''frida-server-16.0.8-android-arm''"
  by (simp_all add: can_open_wb_def isdir_def dirname_def split_path_def rstrip_sep_def Let_def
      sample_defs)

text \<open>
  C5. Cache hit: when the destination file exists in the cache directory and the
  download is not forced, \<^verbatim>\<open>download_and_extract\<close> returns \<^verbatim>\<open>True\<close>, asks the
  release host nothing and leaves files and directories as they were.
\<close>

theorem download_and_extract_cache_hit:
  assumes "files w (path_join (DOWNLOAD_PATH E) fname) \<noteq> None"
    and "DOWNLOAD_PATH E \<in> dirs w"
  shows "fst (download_and_extract E url fname False w) = Inr True
       \<and> files (snd (download_and_extract E url fname False w)) = files w
       \<and> dirs (snd (download_and_extract E url fname False w)) = dirs w
       \<and> \<not> list_ex is_HttpGet (new_events (download_and_extract E url fname False) w)"
  by (simp add: download_hit [OF assms] new_events_def is_HttpGet_def)

theorem download_and_extract_cache_hit_witness:
  "files w_cached (path_join (DOWNLOAD_PATH E_arm) ''frida-server-16.0.8-android-arm'') \<noteq> None
   \<and> DOWNLOAD_PATH E_arm \<in> dirs w_cached
   \<and> fst (download_and_extract E_arm ''https://github.com/''
             ''frida-server-16.0.8-android-arm'' False w_cached) = Inr True
   \<and> snd (download_and_extract E_arm ''https://github.com/''
             ''frida-server-16.0.8-android-arm'' False w_cached)
       = w_cached\<lparr>trace :=
           [Log INFO ''Using frida-server-16.0.8-android-arm from downloaded cache'']\<rparr>"
proof -
  have f: "files w_cached (path_join (DOWNLOAD_PATH E_arm) ''frida-server-16.0.8-android-arm'')
             \<noteq> None"
    by (simp add: sample_defs path_join_def)
  have d: "DOWNLOAD_PATH E_arm \<in> dirs w_cached"
    by (simp add: sample_defs)
  have "snd (download_and_extract E_arm ''https://github.com/''
             ''frida-server-16.0.8-android-arm'' False w_cached)
       = w_cached\<lparr>trace :=
           [Log INFO ''Using frida-server-16.0.8-android-arm from downloaded cache'']\<rparr>"
    by (simp add: download_hit [OF f d]) (simp add: sample_defs path_join_def basename_def)
  with download_and_extract_cache_hit [OF f d] f d show ?thesis
    by simp
qed

text \<open>
  C8. The claim: after a download with status 200 and a decompression that
  succeeds, the decompressed bytes are in the destination file and the
  intermediate \<^verbatim>\<open>.xz\<close> file is gone. The standalone script returns \<^verbatim>\<open>True\<close> and
  leaves the archive where it wrote it.
\<close>

theorem download_and_extract_standalone_keeps_archive:
  "fst (download_and_extract_standalone E_arm ''https://github.com/''
          ''frida-server-16.0.8-android-arm'' w_empty) = Inr True
   \<and> files (snd (download_and_extract_standalone E_arm ''https://github.com/''
          ''frida-server-16.0.8-android-arm'' w_empty))
        ''frida-server-16.0.8-android-arm.xz'' = Some ''XZDATA''"
proof -
  have r: "requests_get E_arm ''https://github.com/''
             = Inr \<lparr>status_code = 200, chunks = [''XZ'', ''DATA'']\<rparr>"
    by (simp add: sample_defs)
  have l: "lzma_read E_arm (concat (chunks \<lparr>status_code = 200, chunks = [''XZ'', ''DATA'']\<rparr>))
             = Inr ''ELF''"
    by (simp add: sample_defs)
  show ?thesis
    by (simp add: download_fetched_standalone [OF r _ l] can_open_cwd_sample)
qed

text \<open>
  C8, amended. Take a download with status 200 and a decompression that yields
  data, and let the archive and the destination be names that can be opened for
  writing (proper file names in an existing directory). The packaged command
  removes the archive and then writes the data to the destination: it returns
  \<^verbatim>\<open>True\<close>, the destination holds the data, and no archive is left. The
  standalone script writes the destination too and keeps the archive, which
  holds the downloaded bytes.
\<close>

theorem download_and_extract_success:
  assumes "requests_get E url = Inr req"
    and "status_code req = 200"
    and "lzma_read E (concat (chunks req)) = Inr data"
    and "data \<noteq> []"
  shows "((files w (path_join (DOWNLOAD_PATH E) fname) = None \<or> force_download)
          \<and> can_open_wb (cache_dir_made E w) (path_join (DOWNLOAD_PATH E) fname @ ''.xz'')
          \<and> can_open_wb (cache_dir_made E w) (path_join (DOWNLOAD_PATH E) fname) \<longrightarrow>
          fst (download_and_extract E url fname force_download w) = Inr True
          \<and> files (snd (download_and_extract E url fname force_download w))
              (path_join (DOWNLOAD_PATH E) fname) = Some data
          \<and> files (snd (download_and_extract E url fname force_download w))
              (path_join (DOWNLOAD_PATH E) fname @ ''.xz'') = None
          \<and> new_events (download_and_extract E url fname force_download) w =
              [Log WARNING (''Downloading: '' @ url), HttpGet url,
               OpenWrite (path_join (DOWNLOAD_PATH E) fname @ ''.xz''),
               LzmaOpen (path_join (DOWNLOAD_PATH E) fname @ ''.xz''),
               Unlink (path_join (DOWNLOAD_PATH E) fname @ ''.xz''),
               Log INFO (''Writing file as: '' @ path_join (DOWNLOAD_PATH E) fname),
               OpenWrite (path_join (DOWNLOAD_PATH E) fname)])
       \<and> (can_open_wb w (fname @ ''.xz'') \<and> can_open_wb w fname \<longrightarrow>
          fst (download_and_extract_standalone E url fname w) = Inr True
          \<and> files (snd (download_and_extract_standalone E url fname w)) fname = Some data
          \<and> files (snd (download_and_extract_standalone E url fname w)) (fname @ ''.xz'')
              = Some (concat (chunks req)))"
  using assms(4)
  by (simp add: download_fetched [OF assms(1,2,3)]
      download_fetched_standalone [OF assms(1,2,3)] new_events_def cache_dir_made_simps)

theorem download_and_extract_success_witness:
  "fst (download_and_extract E_arm ''https://github.com/''
          ''frida-server-16.0.8-android-arm'' False w_empty) = Inr True
   \<and> files (snd (download_and_extract E_arm ''https://github.com/''
          ''frida-server-16.0.8-android-arm'' False w_empty))
        ''/home/user/.frida-push/frida-server-16.0.8-android-arm'' = Some ''ELF''
   \<and> files (snd (download_and_extract E_arm ''https://github.com/''
          ''frida-server-16.0.8-android-arm'' False w_empty))
        ''/home/user/.frida-push/frida-server-16.0.8-android-arm.xz'' = None
   \<and> files (snd (download_and_extract_standalone E_arm ''https://github.com/''
          ''frida-server-16.0.8-android-arm'' w_empty))
        ''frida-server-16.0.8-android-arm'' = Some ''ELF''"
proof -
  have r: "requests_get E_arm ''https://github.com/''
             = Inr \<lparr>status_code = 200, chunks = [''XZ'', ''DATA'']\<rparr>"
    by (simp add: sample_defs)
  have s: "status_code \<lparr>status_code = 200, chunks = [''XZ'', ''DATA'']\<rparr> = 200"
    by simp
  have l: "lzma_read E_arm (concat (chunks \<lparr>status_code = 200, chunks = [''XZ'', ''DATA'']\<rparr>))
             = Inr ''ELF''"
    by (simp add: sample_defs)
  have n: "''ELF'' \<noteq> []"
    by simp
  have m: "files w_empty (path_join (DOWNLOAD_PATH E_arm) ''frida-server-16.0.8-android-arm'')
             = None"
    by (simp add: sample_defs)
  have p: "path_join (DOWNLOAD_PATH E_arm) ''frida-server-16.0.8-android-arm''
             = ''/home/user/.frida-push/frida-server-16.0.8-android-arm''"
    by (simp add: sample_defs path_join_def)
  from download_and_extract_success [OF r s l n, of w_empty
      "''frida-server-16.0.8-android-arm''" False]
  show ?thesis
    unfolding p using m can_open_cache_sample can_open_cwd_sample by (simp add: p)
qed

text \<open>
  C10. When the download has status 200 and the archive, written under a name
  that can be opened, decompresses without an error to zero bytes, both scripts
  return \<^verbatim>\<open>False\<close> and do not open the destination file: its content, or its
  absence, is what it was.
\<close>

theorem download_and_extract_empty_data:
  assumes "requests_get E url = Inr req"
    and "status_code req = 200"
    and "lzma_read E (concat (chunks req)) = Inr []"
  shows "((files w (path_join (DOWNLOAD_PATH E) fname) = None \<or> force_download)
          \<and> can_open_wb (cache_dir_made E w) (path_join (DOWNLOAD_PATH E) fname @ ''.xz'') \<longrightarrow>
          fst (download_and_extract E url fname force_download w) = Inr False
          \<and> files (snd (download_and_extract E url fname force_download w))
              (path_join (DOWNLOAD_PATH E) fname) = files w (path_join (DOWNLOAD_PATH E) fname)
          \<and> OpenWrite (path_join (DOWNLOAD_PATH E) fname)
              \<notin> set (new_events (download_and_extract E url fname force_download) w))
       \<and> (can_open_wb w (fname @ ''.xz'') \<longrightarrow>
          fst (download_and_extract_standalone E url fname w) = Inr False
          \<and> files (snd (download_and_extract_standalone E url fname w)) fname = files w fname
          \<and> OpenWrite fname
              \<notin> set (new_events (download_and_extract_standalone E url fname) w))"
  by (simp add: download_fetched [OF assms(1,2,3)]
      download_fetched_standalone [OF assms(1,2,3)] new_events_def cache_dir_made_simps)

theorem download_and_extract_empty_data_witness:
  "fst (download_and_extract E_empty_archive ''https://github.com/''
          ''frida-server-16.0.8-android-arm'' False w_empty) = Inr False
   \<and> files (snd (download_and_extract E_empty_archive ''https://github.com/''
          ''frida-server-16.0.8-android-arm'' False w_empty))
        ''/home/user/.frida-push/frida-server-16.0.8-android-arm'' = None
   \<and> fst (download_and_extract_standalone E_empty_archive ''https://github.com/''
          ''frida-server-16.0.8-android-arm'' w_empty) = Inr False
   \<and> files (snd (download_and_extract_standalone E_empty_archive ''https://github.com/''
          ''frida-server-16.0.8-android-arm'' w_empty))
        ''frida-server-16.0.8-android-arm'' = None"
proof -
  have r: "requests_get E_empty_archive ''https://github.com/''
             = Inr \<lparr>status_code = 200, chunks = [''XZ'', ''DATA'']\<rparr>"
    by (simp add: sample_defs)
  have s: "status_code \<lparr>status_code = 200, chunks = [''XZ'', ''DATA'']\<rparr> = 200"
    by simp
  have l: "lzma_read E_empty_archive
             (concat (chunks \<lparr>status_code = 200, chunks = [''XZ'', ''DATA'']\<rparr>)) = Inr []"
    by (simp add: sample_defs)
  have m: "files w_empty
             (path_join (DOWNLOAD_PATH E_empty_archive) ''frida-server-16.0.8-android-arm'')
             = None"
    by (simp add: sample_defs)
  have p: "path_join (DOWNLOAD_PATH E_empty_archive) ''frida-server-16.0.8-android-arm''
             = ''/home/user/.frida-push/frida-server-16.0.8-android-arm''"
    by (simp add: sample_defs path_join_def)
  have c: "cache_dir_made E_empty_archive w_empty = cache_dir_made E_arm w_empty"
    by (simp add: cache_dir_made_def sample_defs)
  have e: "files w_empty = Map.empty"
    by (simp add: sample_defs)
  from download_and_extract_empty_data [OF r s l, of w_empty
      "''frida-server-16.0.8-android-arm''" False]
  show ?thesis
    unfolding p c using m can_open_cache_sample can_open_cwd_sample by (simp add: p e)
qed

subsection \<open>Deployment\<close>

lemma push_failed:
  assumes "returncode (popen E (push_cmd_of E fname t)) \<noteq> 0"
  shows "push_and_execute E fname t w =
    (let res = popen E (push_cmd_of E fname t) in
     if \<not> utf8_valid (stdout res) \<or> \<not> utf8_valid (stderr res)
     then (Inl UnicodeDecodeError, w\<lparr>trace := trace w @ [Popen (push_cmd_of E fname t)]\<rparr>)
     else (Inr (), w\<lparr>trace := trace w @
             [Popen (push_cmd_of E fname t),
              Log ERROR (''Could not push the binary to device. '' @ stdout res @ stderr res)]\<rparr>))"
  using assms
  by (auto simp add: push_and_execute_def push_cmd_of_def run_defs proc_defs Let_def decode_def
      py_str_def)

lemma push_succeeded:
  assumes "returncode (popen E (push_cmd_of E fname t)) = 0"
  shows "\<exists>r rest. push_and_execute E fname t w =
    (r, w\<lparr>trace := trace w @
          [Popen (push_cmd_of E fname t),
           Log INFO ''File pushed to device successfully.'',
           Popen (chmod_cmd_of t),
           Log INFO ''Killing all frida-server on device.'',
           Popen (kill_cmd_of t),
           Log INFO ''Executing frida-server on device.'',
           Popen (execute_cmd_of t)] @ rest\<rparr>)
    \<and> list_all (\<lambda>e. \<not> is_command e) rest"
  using assms
  by (auto simp add: push_and_execute_def push_cmd_of_def chmod_cmd_of_def kill_cmd_of_def
      execute_cmd_of_def run_defs proc_defs Let_def decode_def py_str_def launch_text_def
      is_command_def split: sum.splits)

lemma push_failed_standalone:
  assumes "returncode (os_system E (push_cmd_standalone fname)) \<noteq> 0"
  shows "push_and_execute_standalone E fname w =
    (Inr (), w\<lparr>trace := trace w @
       [OsSystem (push_cmd_standalone fname),
        Print ''[-] Could not push the binary to device.'']\<rparr>)"
  using assms
  by (auto simp add: push_and_execute_standalone_def push_cmd_standalone_def run_defs proc_defs
      Let_def adb_path_def remote_path_def)

lemma push_succeeded_standalone:
  assumes "returncode (os_system E (push_cmd_standalone fname)) = 0"
  shows "push_and_execute_standalone E fname w =
    (Inr (), w\<lparr>files := (files w)(''frida.pid'' \<mapsto> ps_output E),
       trace := trace w @
         [OsSystem (push_cmd_standalone fname),
          Print (CHR 0x09 # ''[+] File pushed to device successfully.''),
          OsSystem (adb_path @ '' shell chmod 0755 '' @ remote_path),
          Print (CHR 0x09 # ''[+] Executing frida-server on device.''),
          OsSystem (adb_path @ '' shell '' @ launch_text @ '' &''),
          Print (CHR 0x09 # ''[+] Fetching the PID of frida-server and saving it to file.''),
          OsSystem (adb_path @ '' shell '' @ [CHR 0x27] @ ''su 0 ps'' @ [CHR 0x27]
                    @ '' | grep frida-server | awk '' @ [CHR 0x27] @ ''{print $2}''
                    @ [CHR 0x27] @ '' > frida.pid'')]\<rparr>)"
  using assms
  by (auto simp add: push_and_execute_standalone_def push_cmd_standalone_def run_defs proc_defs
      Let_def adb_path_def remote_path_def launch_text_def)

text \<open>
  C7. The claim: when the push exits with a non-zero code, \<^verbatim>\<open>push_and_execute\<close>
  reports the failure with the captured output and runs no further step. The
  standalone script runs the push through \<^verbatim>\<open>os.system\<close> and prints a fixed
  line: what the bridge wrote is not in its report.
\<close>

theorem push_and_execute_standalone_report_lacks_output:
  "returncode (os_system E_push_fails (push_cmd_standalone ''frida-server-16.0.8-android-arm''))
     \<noteq> 0
   \<and> new_events (push_and_execute_standalone E_push_fails ''frida-server-16.0.8-android-arm'')
       w_empty
     = [OsSystem ''adb push frida-server-16.0.8-android-arm /data/local/tmp/frida-server'',
        Print ''[-] Could not push the binary to device.'']
   \<and> \<not> reports_output
        (new_events (push_and_execute_standalone E_push_fails ''frida-server-16.0.8-android-arm'')
           w_empty)
        (os_system E_push_fails (push_cmd_standalone ''frida-server-16.0.8-android-arm''))"
proof -
  have f: "returncode (os_system E_push_fails
             (push_cmd_standalone ''frida-server-16.0.8-android-arm'')) \<noteq> 0"
    by (simp add: sample_defs)
  show ?thesis
    by (simp add: push_failed_standalone [OF f] new_events_def reports_output_def is_report_def)
       (simp add: sample_defs push_cmd_standalone_def remote_path_def)
qed

text \<open>
  C7, amended. When the push exits with a non-zero code, no further command is
  run in either script. The packaged command then logs an error that ends with
  the captured stdout and stderr of the push, provided both decode as UTF-8;
  otherwise it raises \<^verbatim>\<open>UnicodeDecodeError\<close> and logs nothing. The standalone
  script prints the line \<^verbatim>\<open>[-] Could not push the binary to device.\<close>
\<close>

theorem push_failure_halts:
  "(returncode (popen E (push_cmd_of E fname t)) \<noteq> 0 \<longrightarrow>
      filter is_command (new_events (push_and_execute E fname t) w)
        = [Popen (push_cmd_of E fname t)]
      \<and> (utf8_valid (stdout (popen E (push_cmd_of E fname t)))
           \<and> utf8_valid (stderr (popen E (push_cmd_of E fname t))) \<longrightarrow>
         push_and_execute E fname t w =
           (Inr (), w\<lparr>trace := trace w @
              [Popen (push_cmd_of E fname t),
               Log ERROR (''Could not push the binary to device. ''
                          @ stdout (popen E (push_cmd_of E fname t))
                          @ stderr (popen E (push_cmd_of E fname t)))]\<rparr>))
      \<and> (\<not> (utf8_valid (stdout (popen E (push_cmd_of E fname t)))
              \<and> utf8_valid (stderr (popen E (push_cmd_of E fname t)))) \<longrightarrow>
         push_and_execute E fname t w =
           (Inl UnicodeDecodeError,
            w\<lparr>trace := trace w @ [Popen (push_cmd_of E fname t)]\<rparr>)))
   \<and> (returncode (os_system E (push_cmd_standalone fname)) \<noteq> 0 \<longrightarrow>
      push_and_execute_standalone E fname w =
        (Inr (), w\<lparr>trace := trace w @
           [OsSystem (push_cmd_standalone fname),
            Print ''[-] Could not push the binary to device.'']\<rparr>))"
  by (auto simp add: push_failed push_failed_standalone new_events_def is_command_def Let_def)

theorem push_failure_halts_witness:
  "returncode (popen E_push_fails (push_cmd_of E_push_fails ''frida-server'' ''1'')) \<noteq> 0
   \<and> returncode (os_system E_push_fails (push_cmd_standalone ''frida-server'')) \<noteq> 0
   \<and> new_events (push_and_execute E_push_fails ''frida-server'' ''1'') w_empty
      = [Popen [''adb'', ''-t'', ''1'', ''push'', ''/home/user/.frida-push/frida-server'',
                ''/data/local/tmp/frida-server''],
         Log ERROR ''Could not push the binary to device. adb: error: device offline'']
   \<and> new_events (push_and_execute_standalone E_push_fails ''frida-server'') w_empty
      = [OsSystem ''adb push frida-server /data/local/tmp/frida-server'',
         Print ''[-] Could not push the binary to device.'']
   \<and> push_and_execute E_push_garbled ''frida-server'' ''1'' w_empty
      = (Inl UnicodeDecodeError,
         w_empty\<lparr>trace :=
           [Popen [''adb'', ''-t'', ''1'', ''push'', ''/home/user/.frida-push/frida-server'',
                   ''/data/local/tmp/frida-server'']]\<rparr>)"
proof -
  have g: "returncode (popen E_push_garbled (push_cmd_of E_push_garbled ''frida-server'' ''1''))
             \<noteq> 0"
    by (simp add: sample_defs)
  have h: "\<not> (utf8_valid (stdout (popen E_push_garbled
                 (push_cmd_of E_push_garbled ''frida-server'' ''1'')))
         \<and> utf8_valid (stderr (popen E_push_garbled
                 (push_cmd_of E_push_garbled ''frida-server'' ''1''))))"
    by (simp add: sample_defs bytes_defs)
  from push_failure_halts [of E_push_garbled "''frida-server''" "''1''" w_empty] g h
  have "push_and_execute E_push_garbled ''frida-server'' ''1'' w_empty =
           (Inl UnicodeDecodeError,
            w_empty\<lparr>trace := trace w_empty @
              [Popen (push_cmd_of E_push_garbled ''frida-server'' ''1'')]\<rparr>)"
    by blast
  then have garbled: "push_and_execute E_push_garbled ''frida-server'' ''1'' w_empty
      = (Inl UnicodeDecodeError,
         w_empty\<lparr>trace :=
           [Popen [''adb'', ''-t'', ''1'', ''push'', ''/home/user/.frida-push/frida-server'',
                   ''/data/local/tmp/frida-server'']]\<rparr>)"
    by (simp add: sample_defs push_cmd_of_def remote_path_def path_join_def)
  have a: "returncode (popen E_push_fails (push_cmd_of E_push_fails ''frida-server'' ''1''))
             \<noteq> 0"
    by (simp add: sample_defs)
  have b: "returncode (os_system E_push_fails (push_cmd_standalone ''frida-server'')) \<noteq> 0"
    by (simp add: sample_defs)
  have c: "utf8_valid (stdout (popen E_push_fails (push_cmd_of E_push_fails ''frida-server'' ''1'')))
         \<and> utf8_valid (stderr (popen E_push_fails (push_cmd_of E_push_fails ''frida-server'' ''1'')))"
    by (simp add: sample_defs bytes_defs)
  from push_failure_halts [of E_push_fails "''frida-server''" "''1''" w_empty] a b c
  have "push_and_execute E_push_fails ''frida-server'' ''1'' w_empty =
           (Inr (), w_empty\<lparr>trace := trace w_empty @
              [Popen (push_cmd_of E_push_fails ''frida-server'' ''1''),
               Log ERROR (''Could not push the binary to device. ''
                  @ stdout (popen E_push_fails (push_cmd_of E_push_fails ''frida-server'' ''1''))
                  @ stderr (popen E_push_fails (push_cmd_of E_push_fails ''frida-server'' ''1'')))]\<rparr>)"
    and "push_and_execute_standalone E_push_fails ''frida-server'' w_empty =
        (Inr (), w_empty\<lparr>trace := trace w_empty @
           [OsSystem (push_cmd_standalone ''frida-server''),
            Print ''[-] Could not push the binary to device.'']\<rparr>)"
    by blast+
  then show ?thesis
    using a b garbled
    by (simp add: new_events_def)
       (simp add: sample_defs push_cmd_of_def push_cmd_standalone_def remote_path_def
          path_join_def)
qed

text \<open>
  C9. The claim: every run that reaches the launch has issued the kill command
  before. The standalone script has no kill command: after a push that succeeds
  it sets the permissions and launches.
\<close>

theorem push_and_execute_standalone_launches_without_kill:
  "list_ex is_launch (new_events (push_and_execute_standalone E_arm ''frida-server'') w_empty)
   \<and> \<not> list_ex is_kill (new_events (push_and_execute_standalone E_arm ''frida-server'') w_empty)
   \<and> \<not> kill_before_launch
         (new_events (push_and_execute_standalone E_arm ''frida-server'') w_empty)"
proof -
  have f: "returncode (os_system E_arm (push_cmd_standalone ''frida-server'')) = 0"
    by (simp add: sample_defs)
  show ?thesis
    by (simp add: push_succeeded_standalone [OF f] new_events_def is_launch_def is_kill_def
        push_cmd_standalone_def adb_path_def remote_path_def launch_text_def)
qed

text \<open>
  C9, amended. In the packaged command no launch comes before the kill command:
  after a push that succeeds the commands are push, chmod, kill, launch, in this
  order, and after a push that fails there is no launch. The standalone script
  never issues a kill command.
\<close>

theorem push_and_execute_kill_before_launch:
  "kill_before_launch (new_events (push_and_execute E fname t) w)
   \<and> (returncode (popen E (push_cmd_of E fname t)) = 0 \<longrightarrow>
        filter is_command (new_events (push_and_execute E fname t) w)
          = [Popen (push_cmd_of E fname t), Popen (chmod_cmd_of t), Popen (kill_cmd_of t),
             Popen (execute_cmd_of t)])
   \<and> \<not> list_ex is_kill (new_events (push_and_execute_standalone E fname) w)"
proof (intro conjI impI)
  show "kill_before_launch (new_events (push_and_execute E fname t) w)"
  proof (cases "returncode (popen E (push_cmd_of E fname t)) = 0")
    case True
    from push_succeeded [OF True, of w] obtain r rest where
      "push_and_execute E fname t w =
         (r, w\<lparr>trace := trace w @
            [Popen (push_cmd_of E fname t),
             Log INFO ''File pushed to device successfully.'',
             Popen (chmod_cmd_of t),
             Log INFO ''Killing all frida-server on device.'',
             Popen (kill_cmd_of t),
             Log INFO ''Executing frida-server on device.'',
             Popen (execute_cmd_of t)] @ rest\<rparr>)"
      by blast
    then show ?thesis
      by (simp add: new_events_def is_kill_def is_launch_def push_cmd_of_def chmod_cmd_of_def
          kill_cmd_of_def remote_path_def launch_text_def)
  next
    case False
    then show ?thesis
      by (simp add: push_failed new_events_def Let_def is_kill_def is_launch_def
          push_cmd_of_def)
  qed
next
  assume ok: "returncode (popen E (push_cmd_of E fname t)) = 0"
  from push_succeeded [OF ok, of w] obtain r rest where
    "push_and_execute E fname t w =
       (r, w\<lparr>trace := trace w @
          [Popen (push_cmd_of E fname t),
           Log INFO ''File pushed to device successfully.'',
           Popen (chmod_cmd_of t),
           Log INFO ''Killing all frida-server on device.'',
           Popen (kill_cmd_of t),
           Log INFO ''Executing frida-server on device.'',
           Popen (execute_cmd_of t)] @ rest\<rparr>)"
    and "list_all (\<lambda>e. \<not> is_command e) rest"
    by blast
  then show "filter is_command (new_events (push_and_execute E fname t) w)
          = [Popen (push_cmd_of E fname t), Popen (chmod_cmd_of t), Popen (kill_cmd_of t),
             Popen (execute_cmd_of t)]"
    by (simp add: new_events_def is_command_def list_all_iff)
next
  show "\<not> list_ex is_kill (new_events (push_and_execute_standalone E fname) w)"
  proof (cases "returncode (os_system E (push_cmd_standalone fname)) = 0")
    case True
    then show ?thesis
      by (simp add: push_succeeded_standalone new_events_def is_kill_def
          push_cmd_standalone_def adb_path_def remote_path_def launch_text_def)
  next
    case False
    then show ?thesis
      by (simp add: push_failed_standalone new_events_def is_kill_def
          push_cmd_standalone_def adb_path_def remote_path_def)
  qed
qed

theorem push_and_execute_kill_before_launch_witness:
  "returncode (popen E_arm (push_cmd_of E_arm ''frida-server'' ''1'')) = 0
   \<and> kill_before_launch (new_events (push_and_execute E_arm ''frida-server'' ''1'') w_empty)
   \<and> filter is_command (new_events (push_and_execute E_arm ''frida-server'' ''1'') w_empty)
      = [Popen [''adb'', ''-t'', ''1'', ''push'', ''/home/user/.frida-push/frida-server'',
                ''/data/local/tmp/frida-server''],
         Popen [''adb'', ''-t'', ''1'', ''shell'', ''chmod 0755 /data/local/tmp/frida-server''],
         Popen [''adb'', ''-t'', ''1'', ''shell'', ''su 0 killall frida-server''],
         Popen (execute_cmd_of ''1'')]"
proof -
  have a: "returncode (popen E_arm (push_cmd_of E_arm ''frida-server'' ''1'')) = 0"
    by (simp add: sample_defs)
  from push_and_execute_kill_before_launch [of E_arm "''frida-server''" "''1''" w_empty] a
  show ?thesis
    by (simp add: sample_defs push_cmd_of_def chmod_cmd_of_def kill_cmd_of_def remote_path_def
        path_join_def)
qed

subsection \<open>Rules for postconditions\<close>

lemma post_ret: "Q (Inr x) pre \<Longrightarrow> post (ret x) pre Q"
  by (simp add: post_def ret_def)

lemma post_lift: "Q r pre \<Longrightarrow> post (lift r) pre Q"
  by (simp add: post_def lift_def)

lemma post_throw: "Q (Inl e) pre \<Longrightarrow> post (throw e) pre Q"
  by (simp add: post_def throw_def)

lemma post_emit: "Q (Inr ()) (pre @ [e]) \<Longrightarrow> post (emit e) pre Q"
  by (simp add: post_def emit_def)

lemma post_and_then:
  assumes "post m pre (\<lambda>r evs. case r of Inl e \<Rightarrow> Q (Inl e) evs | Inr x \<Rightarrow> post (f x) evs Q)"
  shows "post (and_then m f) pre Q"
  unfolding post_def
proof
  fix w
  from assms obtain evs1 where t1: "trace (snd (m w)) = trace w @ evs1"
    and c: "case fst (m w) of Inl e \<Rightarrow> Q (Inl e) (pre @ evs1)
            | Inr x \<Rightarrow> post (f x) (pre @ evs1) Q"
    unfolding post_def by blast
  show "\<exists>evs. trace (snd (and_then m f w)) = trace w @ evs
          \<and> Q (fst (and_then m f w)) (pre @ evs)"
  proof (cases "fst (m w)")
    case (Inl e)
    then have "and_then m f w = (Inl e, snd (m w))"
      by (cases "m w") (simp add: and_then_def)
    with t1 c Inl show ?thesis
      by simp
  next
    case (Inr x)
    then have eq: "and_then m f w = f x (snd (m w))"
      by (cases "m w") (simp add: and_then_def)
    from c Inr have "post (f x) (pre @ evs1) Q"
      by simp
    then obtain evs2 where "trace (snd (f x (snd (m w)))) = trace (snd (m w)) @ evs2"
      and "Q (fst (f x (snd (m w)))) ((pre @ evs1) @ evs2)"
      unfolding post_def by blast
    with t1 eq show ?thesis
      by (intro exI [of _ "evs1 @ evs2"]) simp
  qed
qed

lemma post_isfile: "(\<And>b. Q (Inr b) pre) \<Longrightarrow> post (isfile p) pre Q"
  by (simp add: post_def isfile_def)

lemma post_attempt_makedirs: "Q (Inr ()) pre \<Longrightarrow> post (attempt (makedirs p)) pre Q"
proof -
  assume q: "Q (Inr ()) pre"
  have "trace (snd (attempt (makedirs p) w)) = trace w \<and> fst (attempt (makedirs p) w) = Inr ()"
    for w
    using makedirs_frame [of p w] by (cases "makedirs p w") (simp add: attempt_def)
  with q show ?thesis
    by (simp add: post_def)
qed

lemma post_http_get:
  "Q (requests_get E url) (pre @ [HttpGet url]) \<Longrightarrow> post (http_get E url) pre Q"
  by (simp add: post_def http_get_def)

lemma post_open_wb:
  "(\<And>e. Q (Inl e) pre) \<Longrightarrow> Q (Inr ()) (pre @ [OpenWrite p]) \<Longrightarrow> post (open_wb p) pre Q"
  by (simp add: post_def open_wb_def)

lemma post_fh_write: "Q (Inr ()) pre \<Longrightarrow> post (fh_write p b) pre Q"
  by (simp add: post_def fh_write_def)

lemma post_for_each_write: "Q (Inr ()) pre \<Longrightarrow> post (for_each cs (fh_write p)) pre Q"
  by (induction cs) (auto intro!: post_ret post_and_then post_fh_write)

lemma post_lzma_open_read:
  "Q (Inl OSError) pre \<Longrightarrow> (\<And>r. Q r (pre @ [LzmaOpen p]))
   \<Longrightarrow> post (lzma_open_read E p) pre Q"
  by (simp add: post_def lzma_open_read_def split: option.splits)

lemma post_unlink:
  "Q (Inl OSError) pre \<Longrightarrow> Q (Inr ()) (pre @ [Unlink p]) \<Longrightarrow> post (unlink p) pre Q"
  by (simp add: post_def unlink_def split: option.splits)

lemma post_run_popen:
  "Q (Inr (popen E cmd)) (pre @ [Popen cmd]) \<Longrightarrow> post (run_popen E cmd) pre Q"
  by (simp add: post_def run_popen_def)

lemma post_run_os_system:
  "Q (Inr (returncode (os_system E cmd))) (pre @ [OsSystem cmd])
   \<Longrightarrow> post (run_os_system E cmd) pre Q"
  by (simp add: post_def run_os_system_def)

lemmas post_rules =
  post_ret post_lift post_throw post_emit post_and_then post_isfile post_attempt_makedirs
  post_open_wb post_for_each_write post_fh_write post_lzma_open_read post_unlink
  post_run_popen post_run_os_system


lemma post_new_events: "post m [] Q \<Longrightarrow> Q (fst (m w)) (new_events m w)"
  by (auto simp add: post_def new_events_def dest!: spec [of _ w])

subsection \<open>What each function adds to the trace\<close>

lemma post_get_device_arch:
  "(\<And>r. Q r (pre @ [CheckOutput (getprop_cmd_of t)])) \<Longrightarrow> post (get_device_arch E t) pre Q"
  unfolding get_device_arch_def getprop_cmd_of_def
  by (rule post_rules | simp split: sum.splits | intro conjI impI allI)+



lemma post_push_and_execute:
  "(\<And>r evs. \<not> list_ex is_HttpGet evs \<Longrightarrow> Q r (pre @ evs))
   \<Longrightarrow> post (push_and_execute E fname t) pre Q"
  unfolding push_and_execute_def Let_def log_def
  by (rule post_rules | simp add: is_HttpGet_def split: sum.splits | intro conjI impI allI)+




lemma post_download_any:
  "(\<And>r evs. Q r (pre @ evs)) \<Longrightarrow> post (download_and_extract E url fname force_download) pre Q"
  unfolding download_and_extract_def log_def Let_def
  by (rule post_rules post_http_get | simp split: sum.splits option.splits
      | intro conjI impI allI)+

lemma post_push_any:
  "(\<And>r evs. Q r (pre @ evs)) \<Longrightarrow> post (push_and_execute E fname t) pre Q"
  by (rule post_push_and_execute) simp

subsection \<open>The entry points\<close>



lemma main_no_device:
  assumes "adb_devices E = Inr []"
  shows "main E ops w =
           (Inl (SystemExit 1),
            w\<lparr>trace := trace w @
               [CheckOutput ''adb devices -l | tail -n+2'',
                Log ERROR ''No device found. Exiting.'']\<rparr>)"
  using assms by (simp add: main_def list_devices_def run_defs ADB_PATH_def)

lemma main_ambiguous:
  assumes "adb_devices E = Inr ds" and "1 < length ds" and "device_name ops = None"
  shows "main E ops w =
           (Inl (SystemExit 2),
            w\<lparr>trace := trace w @
               [CheckOutput ''adb devices -l | tail -n+2'',
                Log INFO (''Devices: '' @ join_str '', '' (map fst ds)),
                Stderr (''Multiple devices conected select one with -d'' @ [LF])]\<rparr>)"
  using assms
  by (cases ds)
     (simp_all add: main_def list_devices_def run_defs parser_exit_def ADB_PATH_def LF_def)

lemma main_not_found:
  assumes "adb_devices E = Inr ds" and "ds \<noteq> []"
    and "device_name ops = Some name" and "name \<notin> fst ` set ds"
  shows "main E ops w =
           (Inl (SystemExit 2),
            w\<lparr>trace := trace w @
               [CheckOutput ''adb devices -l | tail -n+2'',
                Log INFO (''Devices: '' @ join_str '', '' (map fst ds)),
                Stderr (''Device '' @ name @ '' not found'' @ [LF])]\<rparr>)"
  using assms
  by (simp add: main_def list_devices_def run_defs parser_exit_def ADB_PATH_def LF_def)

lemma main_single:
  assumes "adb_devices E = Inr [(d, props)]" and "device_name ops = None"
  shows "main E ops w = main E (ops\<lparr>device_name := Some d\<rparr>) w"
proof -
  have f: "force (ops\<lparr>device_name := Some d\<rparr>) = force ops"
    by simp
  have n: "device_name (ops\<lparr>device_name := Some d\<rparr>) = Some d"
    by simp
  show ?thesis
    unfolding main_def f n using assms
    by (simp add: list_devices_def run_defs parser_exit_def ADB_PATH_def)
qed

lemma main_single_query:
  assumes "adb_devices E = Inr [(d, props)]" and "device_name ops = None"
    and "map_of props ''transport_id'' = Some t"
  shows "post (main E ops) []
           (\<lambda>r evs. take 4 evs =
              [CheckOutput ''adb devices -l | tail -n+2'',
               Log INFO (''Devices: '' @ d),
               Log INFO (''Current installed Frida version: '' @ FRIDA_VERSION E),
               CheckOutput (getprop_cmd_of t)])"
  unfolding main_def list_devices_def log_def parser_exit_def
  by (rule post_rules post_push_any post_get_device_arch post_download_any
      | simp add: assms ADB_PATH_def join_str_def prepare_download_url_def base_url_def
          split: sum.splits option.splits
      | intro conjI impI allI)+

text \<open>
  C4. Device selection in the packaged command. With no device connected the
  run logs the error and exits with status 1. With exactly one device and no
  name requested it goes on as if that device had been named, and its first
  query goes to that device's transport. With more than one device and no name
  requested, and with a requested name that no connected device carries, it
  writes its message to stderr and exits with status 2. In the failing cases the
  trace holds the device listing, a log line and the message only: nothing is
  downloaded or deployed, and the files are as they were. (With no device
  connected a requested name does not matter: the first test decides.)
\<close>

theorem main_device_selection:
  assumes "adb_devices E = Inr ds"
  shows "(ds = [] \<longrightarrow>
           main E ops w =
             (Inl (SystemExit 1),
              w\<lparr>trace := trace w @
                 [CheckOutput ''adb devices -l | tail -n+2'',
                  Log ERROR ''No device found. Exiting.'']\<rparr>))
       \<and> (\<forall>d props. ds = [(d, props)] \<and> device_name ops = None \<longrightarrow>
           main E ops w = main E (ops\<lparr>device_name := Some d\<rparr>) w
           \<and> (\<forall>t. map_of props ''transport_id'' = Some t \<longrightarrow>
                take 4 (new_events (main E ops) w) =
                  [CheckOutput ''adb devices -l | tail -n+2'',
                   Log INFO (''Devices: '' @ d),
                   Log INFO (''Current installed Frida version: '' @ FRIDA_VERSION E),
                   CheckOutput (getprop_cmd_of t)]))
       \<and> (1 < length ds \<and> device_name ops = None \<longrightarrow>
           main E ops w =
             (Inl (SystemExit 2),
              w\<lparr>trace := trace w @
                 [CheckOutput ''adb devices -l | tail -n+2'',
                  Log INFO (''Devices: '' @ join_str '', '' (map fst ds)),
                  Stderr (''Multiple devices conected select one with -d'' @ [LF])]\<rparr>))
       \<and> (\<forall>name. ds \<noteq> [] \<and> device_name ops = Some name \<and> name \<notin> fst ` set ds \<longrightarrow>
           main E ops w =
             (Inl (SystemExit 2),
              w\<lparr>trace := trace w @
                 [CheckOutput ''adb devices -l | tail -n+2'',
                  Log INFO (''Devices: '' @ join_str '', '' (map fst ds)),
                  Stderr (''Device '' @ name @ '' not found'' @ [LF])]\<rparr>))"
proof (intro conjI impI allI)
  assume "ds = []"
  with assms show "main E ops w =
             (Inl (SystemExit 1),
              w\<lparr>trace := trace w @
                 [CheckOutput ''adb devices -l | tail -n+2'',
                  Log ERROR ''No device found. Exiting.'']\<rparr>)"
    by (simp add: main_no_device)
next
  fix d props
  assume "ds = [(d, props)] \<and> device_name ops = None"
  with assms show "main E ops w = main E (ops\<lparr>device_name := Some d\<rparr>) w"
    by (simp add: main_single)
next
  fix d props t
  assume a: "ds = [(d, props)] \<and> device_name ops = None"
    and t: "map_of props ''transport_id'' = Some t"
  from a assms have "adb_devices E = Inr [(d, props)]" and "device_name ops = None"
    by simp_all
  from post_new_events [OF main_single_query [OF this t], of w]
  show "take 4 (new_events (main E ops) w) =
                  [CheckOutput ''adb devices -l | tail -n+2'',
                   Log INFO (''Devices: '' @ d),
                   Log INFO (''Current installed Frida version: '' @ FRIDA_VERSION E),
                   CheckOutput (getprop_cmd_of t)]" .
next
  assume "1 < length ds \<and> device_name ops = None"
  with assms show "main E ops w =
             (Inl (SystemExit 2),
              w\<lparr>trace := trace w @
                 [CheckOutput ''adb devices -l | tail -n+2'',
                  Log INFO (''Devices: '' @ join_str '', '' (map fst ds)),
                  Stderr (''Multiple devices conected select one with -d'' @ [LF])]\<rparr>)"
    by (simp add: main_ambiguous)
next
  fix name
  assume "ds \<noteq> [] \<and> device_name ops = Some name \<and> name \<notin> fst ` set ds"
  with assms show "main E ops w =
             (Inl (SystemExit 2),
              w\<lparr>trace := trace w @
                 [CheckOutput ''adb devices -l | tail -n+2'',
                  Log INFO (''Devices: '' @ join_str '', '' (map fst ds)),
                  Stderr (''Device '' @ name @ '' not found'' @ [LF])]\<rparr>)"
    by (simp add: main_not_found)
qed

theorem main_device_selection_witness:
  "main E_no_device no_name w_empty =
     (Inl (SystemExit 1),
      w_empty\<lparr>trace := [CheckOutput ''adb devices -l | tail -n+2'',
                          Log ERROR ''No device found. Exiting.'']\<rparr>)
   \<and> take 4 (new_events (main E_arm no_name) w_empty) =
       [CheckOutput ''adb devices -l | tail -n+2'',
        Log INFO ''Devices: 0a1b2c3d'',
        Log INFO ''Current installed Frida version: 16.0.8'',
        CheckOutput ''adb -t 1 shell getprop ro.product.cpu.abi'']
   \<and> main E_two_devices no_name w_empty =
     (Inl (SystemExit 2),
      w_empty\<lparr>trace := [CheckOutput ''adb devices -l | tail -n+2'',
                          Log INFO ''Devices: 0a1b2c3d, emulator-5554'',
                          Stderr (''Multiple devices conected select one with -d'' @ [LF])]\<rparr>)
   \<and> main E_arm (named ''emulator-5554'') w_empty =
     (Inl (SystemExit 2),
      w_empty\<lparr>trace := [CheckOutput ''adb devices -l | tail -n+2'',
                          Log INFO ''Devices: 0a1b2c3d'',
                          Stderr (''Device emulator-5554 not found'' @ [LF])]\<rparr>)"
proof -
  have n: "adb_devices E_no_device = Inr []"
    by (simp add: sample_defs)
  have o: "adb_devices E_arm
             = Inr [(''0a1b2c3d'', [(''product'', ''hammerhead''), (''transport_id'', ''1'')])]"
    by (simp add: sample_defs)
  have t: "adb_devices E_two_devices
             = Inr [(''0a1b2c3d'', [(''transport_id'', ''1'')]),
                    (''emulator-5554'', [(''transport_id'', ''2'')])]"
    by (simp add: sample_defs)
  have 1: "main E_no_device no_name w_empty =
     (Inl (SystemExit 1),
      w_empty\<lparr>trace := [CheckOutput ''adb devices -l | tail -n+2'',
                          Log ERROR ''No device found. Exiting.'']\<rparr>)"
    using main_device_selection [OF n, of no_name w_empty] by (simp add: w_empty_def)
  have 2: "take 4 (new_events (main E_arm no_name) w_empty) =
       [CheckOutput ''adb devices -l | tail -n+2'',
        Log INFO ''Devices: 0a1b2c3d'',
        Log INFO ''Current installed Frida version: 16.0.8'',
        CheckOutput ''adb -t 1 shell getprop ro.product.cpu.abi'']"
    using main_device_selection [OF o, of no_name w_empty]
    by (simp add: no_name_def) (simp add: sample_defs)
  have 3: "main E_two_devices no_name w_empty =
     (Inl (SystemExit 2),
      w_empty\<lparr>trace := [CheckOutput ''adb devices -l | tail -n+2'',
                          Log INFO ''Devices: 0a1b2c3d, emulator-5554'',
                          Stderr (''Multiple devices conected select one with -d'' @ [LF])]\<rparr>)"
    using main_device_selection [OF t, of no_name w_empty]
    by (simp add: no_name_def w_empty_def join_str_def)
  have 4: "main E_arm (named ''emulator-5554'') w_empty =
     (Inl (SystemExit 2),
      w_empty\<lparr>trace := [CheckOutput ''adb devices -l | tail -n+2'',
                          Log INFO ''Devices: 0a1b2c3d'',
                          Stderr (''Device emulator-5554 not found'' @ [LF])]\<rparr>)"
    using main_device_selection [OF o, of "named ''emulator-5554''" w_empty]
    by (simp add: named_def w_empty_def join_str_def)
  from 1 2 3 4 show ?thesis
    by blast
qed



end
